theory Spec2Isabelle
  imports Main "HOL-Library.Log_Nat"
begin

section \<open>Python values\<close>

subsection \<open>Floats\<close>

text \<open>
  A Python \<open>float\<close> is an IEEE 754 binary64 number. A finite float is represented by the
  rational number it denotes, and every arithmetic operation computes the exact result and
  rounds it to the nearest number with a 53-bit significand, ties to even. Overflow,
  subnormal numbers, infinities and NaN are outside the model: every score, weight and
  progress value of the program lies between \<open>10\<^sup>-\<^sup>3\<close> and \<open>10\<^sup>4\<close>.
\<close>

type_synonym pyfloat = rat

definition round_half_even :: "rat \<Rightarrow> int" where
  "round_half_even y =
     (let f = \<lfloor>y\<rfloor>; d = y - of_int f
      in if d < 1 / 2 then f else if 1 / 2 < d then f + 1 else if even f then f else f + 1)"

text \<open>\<open>ilog2 x\<close> is \<open>\<lfloor>log\<^sub>2 x\<rfloor>\<close> for a positive rational, found from the bit lengths
  of numerator and denominator.\<close>

definition ilog2 :: "rat \<Rightarrow> int" where
  "ilog2 x = (case quotient_of x of (p, q) \<Rightarrow>
       (let k = bitlen p - bitlen q in if power_int 2 k \<le> x then k else k - 1))"

definition fl :: "rat \<Rightarrow> pyfloat" where
  "fl x = (if x = 0 then 0
           else (let e = ilog2 \<bar>x\<bar> - 52
                 in of_int (round_half_even (x / power_int 2 e)) * power_int 2 e))"

definition fadd :: "pyfloat \<Rightarrow> pyfloat \<Rightarrow> pyfloat" where
  "fadd a b = fl (a + b)"

definition fsub :: "pyfloat \<Rightarrow> pyfloat \<Rightarrow> pyfloat" where
  "fsub a b = fl (a - b)"

definition fmul :: "pyfloat \<Rightarrow> pyfloat \<Rightarrow> pyfloat" where
  "fmul a b = fl (a * b)"

text \<open>True division \<open>a / b\<close>; the callers below never divide by zero unguarded.\<close>

definition fdiv :: "pyfloat \<Rightarrow> pyfloat \<Rightarrow> pyfloat" where
  "fdiv a b = fl (a / b)"

text \<open>\<open>sum(...)\<close> over floats, starting from the integer 0, adding left to right.\<close>

definition py_sum :: "pyfloat list \<Rightarrow> pyfloat" where
  "py_sum xs = foldl fadd 0 xs"

text \<open>\<open>int(x)\<close> truncates towards zero.\<close>

definition py_int :: "pyfloat \<Rightarrow> int" where
  "py_int x = (if 0 \<le> x then \<lfloor>x\<rfloor> else \<lceil>x\<rceil>)"

text \<open>\<open>round(x, 2)\<close>: the exact value of \<open>x\<close> is rounded to two decimals (ties to
  even), and the decimal result is read back as the nearest float.\<close>

definition py_round2 :: "pyfloat \<Rightarrow> pyfloat" where
  "py_round2 x = fl (of_int (round_half_even (x * 100)) / 100)"

subsection \<open>Strings\<close>

text \<open>A \<open>str\<close> is a list of characters; \<open>len\<close> is \<open>length\<close>. Case conversion is the
  ASCII one.\<close>

definition lower_char :: "char \<Rightarrow> char" where
  "lower_char c = (let n = of_char c :: nat in if 65 \<le> n \<and> n \<le> 90 then char_of (n + 32) else c)"

definition upper_char :: "char \<Rightarrow> char" where
  "upper_char c = (let n = of_char c :: nat in if 97 \<le> n \<and> n \<le> 122 then char_of (n - 32) else c)"

definition lower :: "string \<Rightarrow> string" where
  "lower s = map lower_char s"

definition upper :: "string \<Rightarrow> string" where
  "upper s = map upper_char s"

fun startswith :: "string \<Rightarrow> string \<Rightarrow> bool" where
  "startswith s [] = True"
| "startswith [] (p # ps) = False"
| "startswith (c # cs) (p # ps) = (c = p \<and> startswith cs ps)"

text \<open>\<open>w in s\<close> for two strings: \<open>w\<close> occurs in \<open>s\<close> as a contiguous substring.\<close>

fun contains :: "string \<Rightarrow> string \<Rightarrow> bool" where
  "contains [] w = (w = [])"
| "contains (c # cs) w = (startswith (c # cs) w \<or> contains cs w)"

text \<open>\<open>str(n)\<close> for a natural number, and the format \<open>{x:.2f}\<close> of a float.\<close>

fun str_nat :: "nat \<Rightarrow> string" where
  "str_nat n =
     (if n < 10 then [char_of (48 + n)] else str_nat (n div 10) @ [char_of (48 + n mod 10)])"

declare str_nat.simps [simp del]

definition format_2f :: "pyfloat \<Rightarrow> string" where
  "format_2f x =
     (let c = nat (round_half_even (\<bar>x\<bar> * 100))
      in (if x < 0 then ''-'' else '''') @ str_nat (c div 100) @ ''.''
           @ [char_of (48 + (c mod 100) div 10), char_of (48 + c mod 10)])"

subsection \<open>Dictionaries and JSON\<close>

text \<open>A \<open>dict\<close> is an association list with distinct keys, in insertion order;
  \<open>d.get(k, default)\<close> is a lookup with \<open>map_of\<close>.\<close>

definition get :: "('k \<times> 'v) list \<Rightarrow> 'k \<Rightarrow> 'v \<Rightarrow> 'v" where
  "get d k dflt = (case map_of d k of None \<Rightarrow> dflt | Some v \<Rightarrow> v)"

definition keys :: "('k \<times> 'v) list \<Rightarrow> 'k list" where
  "keys d = map fst d"

datatype json =
    JNull
  | JBool bool
  | JNum rat
  | JStr string
  | JArr "json list"
  | JObj "(string \<times> json) list"

section \<open>The rule scorer: \<open>app/services/seo_analyzer.py\<close>\<close>

text \<open>A recommendation is a dictionary with the keys \<open>category\<close>, \<open>priority\<close>,
  \<open>title\<close>, \<open>description\<close> and \<open>impact\<close>.\<close>

type_synonym recommendation = "(string \<times> string) list"

definition mk_rec :: "string \<Rightarrow> string \<Rightarrow> string \<Rightarrow> string \<Rightarrow> string \<Rightarrow> recommendation" where
  "mk_rec c p t d i =
     [(''category'', c), (''priority'', p), (''title'', t), (''description'', d), (''impact'', i)]"

text \<open>The crawler's result. The scorer reads six of its keys with \<open>get\<close> and a default,
  so these may be absent.\<close>

record crawl_data =
  cd_url :: string
  cd_html :: string
  cd_text :: string
  cd_screenshot :: string
  cd_meta_tags :: "(string \<times> string) list option"
  cd_headings :: "(string \<times> string list) list option"
  cd_load_time :: "pyfloat option"
  cd_mobile_friendly :: "bool option"
  cd_ssl_enabled :: "bool option"
  cd_structured_data :: "(string \<times> json) list list option"

record part_analysis =
  pa_score :: int
  pa_issues :: "string list"
  pa_recommendations :: "recommendation list"

record perf_analysis =
  pf_score :: int
  pf_issue :: "string option"
  pf_recommendations :: "recommendation list"

record seo_metrics =
  m_meta_tags :: "(string \<times> string) list"
  m_headings :: "(string \<times> string list) list"
  m_load_time :: pyfloat
  m_mobile_friendly :: bool
  m_ssl_enabled :: bool
  m_structured_data :: "(string \<times> json) list list"

record seo_results =
  seo_score :: pyfloat
  seo_category_scores :: "(string \<times> int) list"
  seo_issues :: "string list"
  seo_recommendations :: "recommendation list"
  seo_metrics :: seo_metrics

definition WEIGHTS :: "(string \<times> pyfloat) list" where
  "WEIGHTS =
     [(''meta_tags'', fl (25 / 100)),
      (''headings'', fl (15 / 100)),
      (''performance'', fl (20 / 100)),
      (''mobile'', fl (15 / 100)),
      (''security'', fl (10 / 100)),
      (''structured_data'', fl (15 / 100))]"

definition TITLE_MIN_LENGTH :: nat where "TITLE_MIN_LENGTH = 30"
definition TITLE_MAX_LENGTH :: nat where "TITLE_MAX_LENGTH = 60"
definition DESCRIPTION_MIN_LENGTH :: nat where "DESCRIPTION_MIN_LENGTH = 120"
definition DESCRIPTION_MAX_LENGTH :: nat where "DESCRIPTION_MAX_LENGTH = 160"

definition PERF_EXCELLENT :: pyfloat where "PERF_EXCELLENT = 2"
definition PERF_GOOD :: pyfloat where "PERF_GOOD = 3"
definition PERF_ACCEPTABLE :: pyfloat where "PERF_ACCEPTABLE = 5"

text \<open>\<open>_analyze_meta_tags\<close>, one definition for each of its four blocks. Each block
  returns what it adds to the score, to the issues and to the recommendations.\<close>

definition meta_title :: "(string \<times> string) list \<Rightarrow> part_analysis" where
  "meta_title meta_tags =
     (let title = get meta_tags ''title'' '''' in
      if title = [] then
        \<lparr>pa_score = 0, pa_issues = [''Missing title tag''],
         pa_recommendations = [mk_rec ''seo'' ''critical'' ''Add Title Tag''
           ''Every page must have a unique, descriptive title tag (30-60 characters)'' ''high'']\<rparr>
      else if length title < TITLE_MIN_LENGTH then
        \<lparr>pa_score = 20,
         pa_issues = [''Title too short ('' @ str_nat (length title) @ '' chars, recommended: ''
            @ str_nat TITLE_MIN_LENGTH @ ''-'' @ str_nat TITLE_MAX_LENGTH @ '')''],
         pa_recommendations = [mk_rec ''seo'' ''high'' ''Expand Title Tag''
           (''Your title is only '' @ str_nat (length title)
              @ '' characters. Expand it to 30-60 characters for better SEO.'') ''medium'']\<rparr>
      else if length title > TITLE_MAX_LENGTH then
        \<lparr>pa_score = 30,
         pa_issues = [''Title too long ('' @ str_nat (length title) @ '' chars, recommended: ''
            @ str_nat TITLE_MIN_LENGTH @ ''-'' @ str_nat TITLE_MAX_LENGTH @ '')''],
         pa_recommendations = [mk_rec ''seo'' ''medium'' ''Shorten Title Tag''
           (''Your title is '' @ str_nat (length title)
              @ '' characters. Shorten it to 60 characters or less to avoid truncation in search results.'')
           ''medium'']\<rparr>
      else \<lparr>pa_score = 40, pa_issues = [], pa_recommendations = []\<rparr>)"

definition meta_description :: "(string \<times> string) list \<Rightarrow> part_analysis" where
  "meta_description meta_tags =
     (let description = get meta_tags ''description'' '''' in
      if description = [] then
        \<lparr>pa_score = 0, pa_issues = [''Missing meta description''],
         pa_recommendations = [mk_rec ''seo'' ''high'' ''Add Meta Description''
           ''Add a compelling meta description (120-160 characters) to improve click-through rates from search results.''
           ''high'']\<rparr>
      else if length description < DESCRIPTION_MIN_LENGTH then
        \<lparr>pa_score = 20,
         pa_issues = [''Description too short ('' @ str_nat (length description) @ '' chars)''],
         pa_recommendations = [mk_rec ''seo'' ''medium'' ''Expand Meta Description''
           (''Your meta description is only '' @ str_nat (length description)
              @ '' characters. Expand it to 120-160 characters for better engagement.'') ''medium'']\<rparr>
      else if length description > DESCRIPTION_MAX_LENGTH then
        \<lparr>pa_score = 30,
         pa_issues = [''Description too long ('' @ str_nat (length description) @ '' chars)''],
         pa_recommendations = []\<rparr>
      else \<lparr>pa_score = 40, pa_issues = [], pa_recommendations = []\<rparr>)"

definition meta_open_graph :: "(string \<times> string) list \<Rightarrow> part_analysis" where
  "meta_open_graph meta_tags =
     (let og_tags = filter (\<lambda>k. startswith k ''og:'') (keys meta_tags) in
      if length og_tags \<ge> 4 then \<lparr>pa_score = 10, pa_issues = [], pa_recommendations = []\<rparr>
      else if length og_tags > 0 then
        \<lparr>pa_score = 5, pa_issues = [],
         pa_recommendations = [mk_rec ''seo'' ''low'' ''Complete Open Graph Tags''
           ''Add complete Open Graph tags (og:title, og:description, og:image, og:url) to improve social media sharing.''
           ''low'']\<rparr>
      else
        \<lparr>pa_score = 0, pa_issues = [],
         pa_recommendations = [mk_rec ''seo'' ''medium'' ''Add Open Graph Tags''
           ''Add Open Graph meta tags to control how your content appears when shared on social media platforms.''
           ''medium'']\<rparr>)"

definition meta_canonical :: "(string \<times> string) list \<Rightarrow> part_analysis" where
  "meta_canonical meta_tags =
     (if ''canonical'' \<in> set (keys meta_tags)
      then \<lparr>pa_score = 10, pa_issues = [], pa_recommendations = []\<rparr>
      else
        \<lparr>pa_score = 0, pa_issues = [],
         pa_recommendations = [mk_rec ''seo'' ''low'' ''Add Canonical URL''
           ''Add a canonical link tag to prevent duplicate content issues.'' ''low'']\<rparr>)"

definition analyze_meta_tags :: "(string \<times> string) list \<Rightarrow> part_analysis" where
  "analyze_meta_tags meta_tags =
     (let parts = [meta_title meta_tags, meta_description meta_tags,
                   meta_open_graph meta_tags, meta_canonical meta_tags];
          score = sum_list (map pa_score parts)
      in \<lparr>pa_score = min score 100,
          pa_issues = concat (map pa_issues parts),
          pa_recommendations = concat (map pa_recommendations parts)\<rparr>)"

text \<open>\<open>_analyze_headings\<close>. The hierarchy loop runs \<open>i\<close> over \<open>range(1, 6)\<close> and
  stops at the first level \<open>i + 1\<close> that is used while level \<open>i\<close> is not.\<close>

definition hlen :: "(string \<times> string list) list \<Rightarrow> string \<Rightarrow> nat" where
  "hlen headings level = length (get headings level [])"

fun hierarchy_gap :: "(string \<times> string list) list \<Rightarrow> nat list \<Rightarrow> nat option" where
  "hierarchy_gap headings [] = None"
| "hierarchy_gap headings (i # rest) =
     (if hlen headings (''h'' @ str_nat (i + 1)) > 0 \<and> hlen headings (''h'' @ str_nat i) = 0
      then Some i else hierarchy_gap headings rest)"

definition headings_h1 :: "(string \<times> string list) list \<Rightarrow> part_analysis" where
  "headings_h1 headings =
     (let h1_count = hlen headings ''h1'' in
      if h1_count = 0 then
        \<lparr>pa_score = - 50, pa_issues = [''Missing H1 tag''],
         pa_recommendations = [mk_rec ''seo'' ''critical'' ''Add H1 Heading''
           ''Every page must have exactly one H1 tag that describes the main topic.'' ''high'']\<rparr>
      else if h1_count > 1 then
        \<lparr>pa_score = - 20,
         pa_issues = [''Multiple H1 tags found ('' @ str_nat h1_count @ ''), should have only one''],
         pa_recommendations = [mk_rec ''seo'' ''high'' ''Use Single H1 Tag''
           (''You have '' @ str_nat h1_count @ '' H1 tags. Use only one H1 per page for better SEO.'')
           ''medium'']\<rparr>
      else \<lparr>pa_score = 0, pa_issues = [], pa_recommendations = []\<rparr>)"

definition headings_h2 :: "(string \<times> string list) list \<Rightarrow> part_analysis" where
  "headings_h2 headings =
     (let h1_count = hlen headings ''h1''; h2_count = hlen headings ''h2'' in
      if h2_count = 0 \<and> h1_count > 0 then
        \<lparr>pa_score = - 30, pa_issues = [''No H2 tags found - consider adding subheadings''],
         pa_recommendations = [mk_rec ''seo'' ''medium'' ''Add H2 Subheadings''
           ''Add H2 tags to structure your content with clear subheadings.'' ''medium'']\<rparr>
      else \<lparr>pa_score = 0, pa_issues = [], pa_recommendations = []\<rparr>)"

definition headings_hierarchy :: "(string \<times> string list) list \<Rightarrow> part_analysis" where
  "headings_hierarchy headings =
     (case hierarchy_gap headings [1, 2, 3, 4, 5] of
        None \<Rightarrow> \<lparr>pa_score = 0, pa_issues = [], pa_recommendations = []\<rparr>
      | Some i \<Rightarrow>
        \<lparr>pa_score = - 20,
         pa_issues = [''Heading hierarchy issue: '' @ upper (''h'' @ str_nat (i + 1))
            @ '' found without '' @ upper (''h'' @ str_nat i)],
         pa_recommendations = [mk_rec ''seo'' ''low'' ''Fix Heading Hierarchy''
           (''Maintain proper heading hierarchy (H1 '' @ [CHR 0xE2, CHR 0x86, CHR 0x92] @ '' H2 ''
              @ [CHR 0xE2, CHR 0x86, CHR 0x92] @ '' H3) without skipping levels.'') ''low'']\<rparr>)"

definition analyze_headings :: "(string \<times> string list) list \<Rightarrow> part_analysis" where
  "analyze_headings headings =
     (let parts = [headings_h1 headings, headings_h2 headings, headings_hierarchy headings];
          score = 100 + sum_list (map pa_score parts)
      in \<lparr>pa_score = max score 0,
          pa_issues = concat (map pa_issues parts),
          pa_recommendations = concat (map pa_recommendations parts)\<rparr>)"

definition analyze_performance :: "pyfloat \<Rightarrow> perf_analysis" where
  "analyze_performance load_time =
     (if load_time < PERF_EXCELLENT then
        \<lparr>pf_score = 100, pf_issue = None, pf_recommendations = []\<rparr>
      else if load_time < PERF_GOOD then
        \<lparr>pf_score = 80,
         pf_issue = Some (''Page load time ('' @ format_2f load_time
            @ ''s) is acceptable but could be improved''),
         pf_recommendations = [mk_rec ''seo'' ''low'' ''Optimize Page Speed''
           (''Your page loads in '' @ format_2f load_time
              @ '' seconds. Consider optimizing images and minifying resources to reach under 2 seconds.'')
           ''low'']\<rparr>
      else if load_time < PERF_ACCEPTABLE then
        \<lparr>pf_score = 50,
         pf_issue = Some (''Page load time ('' @ format_2f load_time @ ''s) is slow''),
         pf_recommendations = [mk_rec ''seo'' ''high'' ''Improve Page Speed''
           (''Your page takes '' @ format_2f load_time
              @ '' seconds to load. Optimize images, enable caching, and minify CSS/JS to improve speed.'')
           ''high'']\<rparr>
      else
        \<lparr>pf_score = 20,
         pf_issue = Some (''Page load time ('' @ format_2f load_time @ ''s) is very slow''),
         pf_recommendations = [mk_rec ''seo'' ''critical'' ''Critical: Fix Page Speed''
           (''Your page takes '' @ format_2f load_time
              @ '' seconds to load, which severely impacts SEO and user experience. Prioritize speed optimization.'')
           ''critical'']\<rparr>)"

definition analyze_mobile :: "bool \<Rightarrow> int \<times> recommendation list" where
  "analyze_mobile mobile_friendly =
     (if mobile_friendly then (100, [])
      else (0, [mk_rec ''seo'' ''critical'' ''Add Viewport Meta Tag''
        (''Add <meta name='' @ [CHR 0x22] @ ''viewport'' @ [CHR 0x22] @ '' content='' @ [CHR 0x22]
           @ ''width=device-width, initial-scale=1'' @ [CHR 0x22]
           @ ''> to make your site mobile-friendly. Mobile-first indexing requires this.'')
        ''critical'']))"

definition analyze_security :: "bool \<Rightarrow> int \<times> recommendation list" where
  "analyze_security ssl_enabled =
     (if ssl_enabled then (100, [])
      else (0, [mk_rec ''seo'' ''critical'' ''Enable HTTPS''
        (''Switch to HTTPS to secure your site. Google prioritizes HTTPS sites in search rankings and browsers mark HTTP sites as ''
           @ [CHR 0x22] @ ''Not Secure'' @ [CHR 0x22] @ ''.'')
        ''critical'']))"

text \<open>\<open>_analyze_structured_data\<close>. An entry is a JSON object; its \<open>@type\<close> may be any
  JSON value. A list-valued \<open>@type\<close> is replaced by its first element, or by the empty
  string when the list is empty; the result is then looked up in \<open>valid_types\<close>, where
  only a string can be found.\<close>

definition valid_types :: "string list" where
  "valid_types = [''Organization'', ''WebSite'', ''Article'', ''Product'', ''LocalBusiness'',
                  ''FAQPage'', ''BreadcrumbList'']"

definition item_type_of :: "(string \<times> json) list \<Rightarrow> json" where
  "item_type_of item =
     (let item_type = get item ''@type'' (JStr '''') in
      case item_type of
        JArr ts \<Rightarrow> (if ts \<noteq> [] then hd ts else JStr '''')
      | _ \<Rightarrow> item_type)"

definition in_valid_types :: "json \<Rightarrow> bool" where
  "in_valid_types item_type = (case item_type of JStr s \<Rightarrow> s \<in> set valid_types | _ \<Rightarrow> False)"

fun has_valid_schema :: "(string \<times> json) list list \<Rightarrow> bool" where
  "has_valid_schema [] = False"
| "has_valid_schema (item # rest) =
     (if in_valid_types (item_type_of item) then True else has_valid_schema rest)"

definition analyze_structured_data :: "(string \<times> json) list list \<Rightarrow> int \<times> recommendation list" where
  "analyze_structured_data structured_data =
     (if structured_data = [] then
        (0, [mk_rec ''seo'' ''medium'' ''Add Structured Data''
          ''Add Schema.org structured data (JSON-LD) to help search engines understand your content better and enable rich snippets.''
          ''medium''])
      else if has_valid_schema structured_data then (100, [])
      else
        (50, [mk_rec ''seo'' ''low'' ''Improve Structured Data''
          ''Consider adding more specific schema types like Organization, Product, or Article for better search engine understanding.''
          ''low'']))"

text \<open>\<open>SEOAnalyzer.analyze\<close>. The overall score is
  \<open>round(sum(scores[key] * WEIGHTS[key] for key in scores), 2)\<close>, with the keys in the
  order in which \<open>scores\<close> was filled.\<close>

definition total_score :: "(string \<times> int) list \<Rightarrow> pyfloat" where
  "total_score scores = py_sum (map (\<lambda>(key, s). fmul (of_int s) (get WEIGHTS key 0)) scores)"

definition analyze :: "crawl_data \<Rightarrow> seo_results" where
  "analyze d =
     (let meta_tags = (case cd_meta_tags d of None \<Rightarrow> [] | Some m \<Rightarrow> m);
          headings = (case cd_headings d of None \<Rightarrow> [] | Some h \<Rightarrow> h);
          load_time = (case cd_load_time d of None \<Rightarrow> 0 | Some t \<Rightarrow> t);
          mobile_friendly = (case cd_mobile_friendly d of None \<Rightarrow> False | Some b \<Rightarrow> b);
          ssl_enabled = (case cd_ssl_enabled d of None \<Rightarrow> False | Some b \<Rightarrow> b);
          structured_data = (case cd_structured_data d of None \<Rightarrow> [] | Some s \<Rightarrow> s);
          meta_analysis = analyze_meta_tags meta_tags;
          heading_analysis = analyze_headings headings;
          perf = analyze_performance load_time;
          mobile = analyze_mobile mobile_friendly;
          security = analyze_security ssl_enabled;
          sd = analyze_structured_data structured_data;
          scores = [(''meta_tags'', pa_score meta_analysis),
                    (''headings'', pa_score heading_analysis),
                    (''performance'', pf_score perf),
                    (''mobile'', fst mobile),
                    (''security'', fst security),
                    (''structured_data'', fst sd)]
      in \<lparr>seo_score = py_round2 (total_score scores),
          seo_category_scores = scores,
          seo_issues = pa_issues meta_analysis @ pa_issues heading_analysis
             @ (case pf_issue perf of None \<Rightarrow> [] | Some i \<Rightarrow> [i]),
          seo_recommendations = pa_recommendations meta_analysis
             @ pa_recommendations heading_analysis @ pf_recommendations perf
             @ snd mobile @ snd security @ snd sd,
          seo_metrics = \<lparr>m_meta_tags = meta_tags, m_headings = headings,
             m_load_time = load_time, m_mobile_friendly = mobile_friendly,
             m_ssl_enabled = ssl_enabled, m_structured_data = structured_data\<rparr>\<rparr>)"

text \<open>The snapshot of the specification's first end-to-end scenario: a title of 29
  characters, a description given as a parameter, one \<open>h1\<close> and one \<open>h2\<close>, a load time of
  1.5 seconds (a float that is exactly \<open>3/2\<close>), a viewport, the scheme https and one
  structured-data entry of type Organization; no Open Graph tag and no canonical link.\<close>

definition scenario1 :: "string \<Rightarrow> crawl_data" where
  "scenario1 description =
     \<lparr>cd_url = ''https://example.com'', cd_html = '''', cd_text = '''', cd_screenshot = '''',
      cd_meta_tags = Some [(''title'', ''Example Domain Reference Page''),
                           (''description'', description)],
      cd_headings = Some [(''h1'', [''Example Domain'']), (''h2'', [''Reference'']),
                          (''h3'', []), (''h4'', []), (''h5'', []), (''h6'', [])],
      cd_load_time = Some (3 / 2),
      cd_mobile_friendly = Some True,
      cd_ssl_enabled = Some True,
      cd_structured_data = Some [[(''@type'', JStr ''Organization'')]]\<rparr>"

section \<open>The semantic scorer: \<open>app/services/llm_analyzer.py\<close>\<close>

text \<open>The parsed JSON answer of the model: its string-valued keys (the four narrative
  fields and \<open>overall_impression\<close>) as a dictionary, and \<open>clarity_score\<close>, an integer
  that may be absent.\<close>

type_synonym llm_result = "(string \<times> string) list"

record llm_response =
  lr_fields :: llm_result
  lr_clarity_score :: "int option"

definition required_fields :: "string list" where
  "required_fields = [''what_it_does'', ''products_services'', ''target_audience'', ''unique_value'']"

text \<open>The loop \<open>for field in required_fields\<close> of \<open>_calculate_aeo_score\<close>, with the
  running \<open>completeness_score\<close>. The literal 7.5 is the float \<open>15/2\<close>.\<close>

fun completeness_loop :: "llm_result \<Rightarrow> string list \<Rightarrow> pyfloat \<Rightarrow> pyfloat" where
  "completeness_loop llm_result [] completeness_score = completeness_score"
| "completeness_loop llm_result (field # rest) completeness_score =
     (let v = get llm_result field '''' in
      completeness_loop llm_result rest
        (if v \<noteq> [] \<and> length v > 20 then fadd completeness_score (15 / 2)
         else completeness_score))"

text \<open>\<open>any(word in s for word in words)\<close>.\<close>

definition any_in :: "string list \<Rightarrow> string \<Rightarrow> bool" where
  "any_in words s = list_ex (\<lambda>word. contains s word) words"

definition calculate_aeo_score :: "llm_result \<Rightarrow> int \<Rightarrow> pyfloat" where
  "calculate_aeo_score llm_result clarity_score =
     (let base_score = fmul (fdiv (of_int clarity_score) 10) 70;
          completeness_score = completeness_loop llm_result required_fields 0;
          overall_impression = lower (get llm_result ''overall_impression'' '''');
          penalty =
            (if any_in [''unclear'', ''confusing'', ''vague'', ''difficult''] overall_impression
             then 10
             else if any_in [''missing'', ''lacking'', ''insufficient''] overall_impression
             then 5 else 0);
          final_score = fsub (fadd base_score completeness_score) penalty
      in py_round2 (min (max final_score 0) 100))"

definition str_int :: "int \<Rightarrow> string" where
  "str_int i = (if i < 0 then ''-'' @ str_nat (nat (- i)) else str_nat (nat i))"

definition generate_aeo_recommendations :: "llm_result \<Rightarrow> int \<Rightarrow> recommendation list" where
  "generate_aeo_recommendations llm_result clarity_score =
     (let what_it_does = get llm_result ''what_it_does'' '''';
          unique_value = get llm_result ''unique_value'' '''';
          target_audience = get llm_result ''target_audience'' '''';
          products_services = get llm_result ''products_services'' '''';
          overall_impression = lower (get llm_result ''overall_impression'' '''')
      in
        (if clarity_score < 7 then
           [mk_rec ''aeo'' ''high'' ''Improve Content Clarity''
             (''Your website purpose scored '' @ str_int clarity_score
                @ ''/10 for clarity. AI engines struggle to understand what you do. Add a clear value proposition and product descriptions in the first paragraph of your homepage.'')
             ''high'']
         else [])
      @ (if what_it_does = [] \<or> length what_it_does < 30
            \<or> contains (lower what_it_does) ''unclear'' then
           [mk_rec ''aeo'' ''critical'' ''Define Your Value Proposition''
             (''AI engines cannot clearly determine what your website does. Add a prominent, clear headline that explains your core offering in simple terms. Example: ''
                @ [CHR 0x22] @ ''We help X do Y'' @ [CHR 0x22] @ '' or '' @ [CHR 0x22]
                @ ''The leading platform for Z'' @ [CHR 0x22] @ ''.'')
             ''critical'']
         else [])
      @ (if unique_value = [] \<or> length unique_value < 20
            \<or> contains (lower unique_value) ''unclear''
            \<or> contains (lower unique_value) ''not clear'' then
           [mk_rec ''aeo'' ''medium'' ''Highlight Unique Selling Points''
             ''Your unique differentiators are not clear to AI engines. Add a section highlighting what sets you apart from competitors. This helps AI assistants recommend you over alternatives.''
             ''medium'']
         else [])
      @ (if target_audience = [] \<or> length target_audience < 20
            \<or> contains (lower target_audience) ''unclear'' then
           [mk_rec ''aeo'' ''medium'' ''Clarify Target Audience''
             (''Make it clearer who your product/service is for. AI engines need to understand your target audience to recommend you to the right users. Add phrases like ''
                @ [CHR 0x22] @ ''Perfect for...'' @ [CHR 0x22] @ '' or '' @ [CHR 0x22]
                @ ''Designed for...'' @ [CHR 0x22] @ '' in your content.'')
             ''medium'']
         else [])
      @ (if products_services = [] \<or> length products_services < 30 then
           [mk_rec ''aeo'' ''high'' ''Detail Your Products/Services''
             ''Your products or services are not clearly described. Add detailed descriptions of what you offer, including key features and benefits. This helps AI engines match user queries to your offerings.''
             ''high'']
         else [])
      @ (if any_in [''poor'', ''difficult'', ''confusing'', ''very unclear''] overall_impression then
           [mk_rec ''aeo'' ''critical'' ''Comprehensive Content Overhaul Needed''
             ''AI engines find your website difficult to understand and recommend. Consider a content audit focusing on: (1) Clear headline with value proposition, (2) Simple language explaining what you do, (3) Prominent product/service descriptions, (4) Customer benefits over features.''
             ''critical'']
         else []))"

text \<open>An exception is its class name and its message \<open>str(e)\<close>.\<close>

record py_exception =
  exc_type :: string
  exc_message :: string

text \<open>The decorator \<open>@retry(stop=stop_after_attempt(3), retry=retry_if_exception_type(Exception),
  reraise=True)\<close>: the call is attempted up to three times; the first success is returned and,
  when the third attempt fails too, its exception is raised. \<open>attempt n\<close> is the outcome of the
  \<open>n\<close>-th attempt, counted from 0; the waiting time between attempts is not modelled.\<close>

fun retry :: "nat \<Rightarrow> nat \<Rightarrow> (nat \<Rightarrow> py_exception + 'a) \<Rightarrow> py_exception + 'a" where
  "retry 0 n attempt = attempt n"
| "retry (Suc remaining) n attempt =
     (case attempt n of Inr r \<Rightarrow> Inr r | Inl e \<Rightarrow> retry remaining (Suc n) attempt)"

definition stop_after_attempt_3 :: "(nat \<Rightarrow> py_exception + 'a) \<Rightarrow> py_exception + 'a" where
  "stop_after_attempt_3 attempt = retry 2 0 attempt"

record aeo_results =
  aeo_score :: pyfloat
  aeo_brand_recognition :: llm_response
  aeo_llm_model :: string
  aeo_recommendations :: "recommendation list"

text \<open>One attempt of \<open>analyze_brand_recognition\<close>. The call of the model and the parsing of
  its answer are outside the program: \<open>api\<close> is either the exception one of them raised,
  which the method turns into an \<open>LLMAnalysisException\<close>, or the parsed answer.\<close>

definition brand_recognition_attempt :: "string \<Rightarrow> py_exception + llm_response \<Rightarrow> py_exception + aeo_results" where
  "brand_recognition_attempt model api =
     (case api of
        Inl e \<Rightarrow>
          Inl \<lparr>exc_type = ''LLMAnalysisException'',
               exc_message =
                 (if exc_type e = ''JSONDecodeError''
                  then ''Invalid JSON response from Claude: '' @ exc_message e
                  else ''Anthropic Claude API error: '' @ exc_message e)\<rparr>
      | Inr result \<Rightarrow>
          (let clarity_score = (case lr_clarity_score result of None \<Rightarrow> 5 | Some c \<Rightarrow> c) in
           Inr \<lparr>aeo_score = calculate_aeo_score (lr_fields result) clarity_score,
                aeo_brand_recognition = result,
                aeo_llm_model = model,
                aeo_recommendations = generate_aeo_recommendations (lr_fields result) clarity_score\<rparr>))"

definition analyze_brand_recognition :: "string \<Rightarrow> (nat \<Rightarrow> py_exception + llm_response) \<Rightarrow> py_exception + aeo_results" where
  "analyze_brand_recognition model api_attempts =
     stop_after_attempt_3 (\<lambda>n. brand_recognition_attempt model (api_attempts n))"

section \<open>The single-URL pipeline: \<open>app/services/orchestrator.py\<close>\<close>

datatype AnalysisStatus = PENDING | PROCESSING | COMPLETED | FAILED

text \<open>The row \<open>AnalysisRequest\<close> and the dictionary it keeps in \<open>error_details\<close>. The
  timestamps are wall-clock readings and are left out.\<close>

record error_details =
  ed_type :: string
  ed_step :: "string option"
  ed_progress :: int

record AnalysisRequest =
  request_id :: string
  url :: string
  status :: AnalysisStatus
  progress :: int
  current_step :: "string option"
  error_message :: "string option"
  error_details :: "error_details option"

record AnalysisResult =
  res_request_id :: string
  page_html :: string
  page_text :: string
  screenshot_path :: string
  res_seo_score :: pyfloat
  res_seo_metrics :: seo_metrics
  res_aeo_score :: pyfloat
  res_aeo_metrics :: llm_response
  recommendations :: "recommendation list"

text \<open>The dictionary a progress callback receives.\<close>

record progress_data =
  pd_status :: "string option"
  pd_step :: "string option"
  pd_progress :: "int option"
  pd_error :: "string option"

text \<open>What lies outside the program during one run: the crawler's result or the exception
  it raised, the outcome of each attempt to call the model, and the exception, if any, that
  writing the screenshot or committing the result raises.\<close>

record job_env =
  env_crawl :: "py_exception + crawl_data"
  env_llm :: "nat \<Rightarrow> py_exception + llm_response"
  env_save :: "py_exception option"

record run_summary =
  rs_request_id :: string
  rs_status :: string
  rs_url :: string
  rs_seo_score :: pyfloat
  rs_aeo_score :: pyfloat

text \<open>The observable outcome of \<open>run_analysis\<close>: the row after each commit, in order, the
  dictionaries passed to the progress callback, the stored result, and the value returned or
  the exception raised.\<close>

record run_outcome =
  ro_trace :: "AnalysisRequest list"
  ro_events :: "progress_data list"
  ro_result :: "AnalysisResult option"
  ro_return :: "py_exception + run_summary"

definition update_status :: "AnalysisRequest \<Rightarrow> AnalysisStatus \<Rightarrow> string \<Rightarrow> int \<Rightarrow> AnalysisRequest" where
  "update_status request st step p =
     request\<lparr>status := st, current_step := Some step, progress := p\<rparr>"

definition update_progress :: "AnalysisRequest \<Rightarrow> string \<Rightarrow> int \<Rightarrow> AnalysisRequest" where
  "update_progress request step p = request\<lparr>current_step := Some step, progress := p\<rparr>"

definition progress_event :: "string \<Rightarrow> int \<Rightarrow> progress_data" where
  "progress_event step p =
     \<lparr>pd_status = Some ''processing'', pd_step = Some step, pd_progress = Some p, pd_error = None\<rparr>"

definition handle_error :: "AnalysisRequest \<Rightarrow> py_exception \<Rightarrow> AnalysisRequest" where
  "handle_error request error =
     request\<lparr>status := FAILED,
              error_message := Some (exc_message error),
              error_details := Some \<lparr>ed_type = exc_type error,
                                       ed_step = current_step request,
                                       ed_progress = progress request\<rparr>\<rparr>"

definition error_event :: "py_exception \<Rightarrow> progress_data" where
  "error_event error =
     \<lparr>pd_status = Some ''failed'', pd_step = None, pd_progress = None,
      pd_error = Some (exc_message error)\<rparr>"

definition crawl_website :: "string \<Rightarrow> job_env \<Rightarrow> py_exception + crawl_data" where
  "crawl_website u env =
     (case env_crawl env of
        Inl e \<Rightarrow> Inl \<lparr>exc_type = ''CrawlerException'',
                      exc_message = ''Failed to crawl '' @ u @ '': '' @ exc_message e\<rparr>
      | Inr crawl_data \<Rightarrow> Inr crawl_data)"

text \<open>\<open>_analyze_with_llm(request.url, crawl_data['text'], crawl_data['meta_tags'])\<close>: the
  subscript raises \<open>KeyError\<close> when the crawl result has no meta tags.\<close>

definition analyze_with_llm :: "crawl_data \<Rightarrow> job_env \<Rightarrow> py_exception + aeo_results" where
  "analyze_with_llm crawl_data env =
     (case cd_meta_tags crawl_data of
        None \<Rightarrow> Inl \<lparr>exc_type = ''KeyError'',
                      exc_message = [CHR 0x27] @ ''meta_tags'' @ [CHR 0x27]\<rparr>
      | Some meta_tags \<Rightarrow> analyze_brand_recognition ''claude-haiku-4-5-20251001'' (env_llm env))"

definition priority_order :: "(string \<times> nat) list" where
  "priority_order = [(''critical'', 0), (''high'', 1), (''medium'', 2), (''low'', 3)]"

text \<open>The sort key \<open>lambda x: priority_order.get(x.get('priority', 'low'), 3)\<close>.\<close>

definition priority_key :: "recommendation \<Rightarrow> nat" where
  "priority_key x = get priority_order (get x ''priority'' ''low'') 3"

text \<open>\<open>list.sort\<close> is stable; \<open>sort_key\<close> is the stable insertion sort of the library.\<close>

definition all_recommendations :: "seo_results \<Rightarrow> aeo_results \<Rightarrow> recommendation list" where
  "all_recommendations seo aeo =
     sort_key priority_key (seo_recommendations seo @ aeo_recommendations aeo)"

definition save_results :: "AnalysisRequest \<Rightarrow> crawl_data \<Rightarrow> seo_results \<Rightarrow> aeo_results \<Rightarrow> job_env
    \<Rightarrow> py_exception + AnalysisResult" where
  "save_results request crawl_data seo aeo env =
     (case env_save env of
        Some e \<Rightarrow> Inl e
      | None \<Rightarrow>
          Inr \<lparr>res_request_id = request_id request,
               page_html = take 50000 (cd_html crawl_data),
               page_text = take 50000 (cd_text crawl_data),
               screenshot_path = ''storage/screenshots/'' @ request_id request @ ''.png'',
               res_seo_score = seo_score seo,
               res_seo_metrics = seo_metrics seo,
               res_aeo_score = aeo_score aeo,
               res_aeo_metrics = aeo_brand_recognition aeo,
               recommendations = all_recommendations seo aeo\<rparr>)"

text \<open>The \<open>except\<close> branch of \<open>run_analysis\<close>: \<open>_handle_error\<close> commits the failed row and
  notifies the callback, then the exception is raised again.\<close>

definition failed_run :: "AnalysisRequest list \<Rightarrow> progress_data list \<Rightarrow> AnalysisRequest
    \<Rightarrow> py_exception \<Rightarrow> run_outcome" where
  "failed_run trace events request error =
     \<lparr>ro_trace = trace @ [handle_error request error],
      ro_events = events @ [error_event error],
      ro_result = None,
      ro_return = Inl error\<rparr>"

definition run_analysis :: "AnalysisRequest \<Rightarrow> job_env \<Rightarrow> run_outcome" where
  "run_analysis request env =
     (let r0 = update_status request PROCESSING ''Starting analysis'' 0;
          r1 = update_progress r0 ''Crawling website'' 10;
          ev1 = [progress_event ''Crawling website'' 10]
      in case crawl_website (url request) env of
        Inl e \<Rightarrow> failed_run [r0, r1] ev1 r1 e
      | Inr crawl_data \<Rightarrow>
     (let r2 = update_progress r1 ''Crawl completed'' 30;
          r3 = update_progress r2 ''Analyzing SEO metrics'' 35;
          seo = analyze crawl_data;
          r4 = update_progress r3 ''SEO analysis completed'' 60;
          r5 = update_progress r4 ''Running AI analysis'' 65;
          ev5 = ev1 @ [progress_event ''Crawl completed'' 30,
                       progress_event ''Analyzing SEO metrics'' 35,
                       progress_event ''SEO analysis completed'' 60,
                       progress_event ''Running AI analysis'' 65]
      in case analyze_with_llm crawl_data env of
        Inl e \<Rightarrow> failed_run [r0, r1, r2, r3, r4, r5] ev5 r5 e
      | Inr aeo \<Rightarrow>
     (let r6 = update_progress r5 ''AI analysis completed'' 90;
          r7 = update_progress r6 ''Saving results'' 95;
          ev7 = ev5 @ [progress_event ''AI analysis completed'' 90,
                       progress_event ''Saving results'' 95]
      in case save_results r7 crawl_data seo aeo env of
        Inl e \<Rightarrow> failed_run [r0, r1, r2, r3, r4, r5, r6, r7] ev7 r7 e
      | Inr result \<Rightarrow>
     (let r8 = update_status r7 COMPLETED ''Analysis completed'' 100
      in \<lparr>ro_trace = [r0, r1, r2, r3, r4, r5, r6, r7, r8],
          ro_events = ev7,
          ro_result = Some result,
          ro_return = Inr \<lparr>rs_request_id = request_id r8, rs_status = ''completed'',
                            rs_url = url r8, rs_seo_score = res_seo_score result,
                            rs_aeo_score = res_aeo_score result\<rparr>\<rparr>))))"

text \<open>A request as the API creates it.\<close>

definition new_request :: "string \<Rightarrow> string \<Rightarrow> AnalysisRequest" where
  "new_request rid u =
     \<lparr>request_id = rid, url = u, status = PENDING, progress = 0, current_step = None,
      error_message = None, error_details = None\<rparr>"

section \<open>The aggregator: \<open>batch_llm_analyzer.py\<close> and \<open>comparison_service.py\<close>\<close>

text \<open>The dictionary \<open>analyze_competitive_landscape\<close> returns, without the key
  \<open>overall_winner\<close>, which is never stored.\<close>

record landscape =
  ls_insights :: string
  ls_opportunities :: "string list"
  ls_threats :: "string list"

text \<open>The parsed JSON answer of the model; each key may be absent.\<close>

record landscape_response =
  lsr_insights :: "string option"
  lsr_opportunities :: "string list option"
  lsr_threats :: "string list option"

text \<open>One attempt of \<open>analyze_competitive_landscape\<close>, for \<open>n_competitors\<close> summaries.\<close>

definition competitive_landscape_attempt :: "nat \<Rightarrow> py_exception + landscape_response \<Rightarrow> py_exception + landscape" where
  "competitive_landscape_attempt n_competitors api =
     (if n_competitors = 0 then
        Inl \<lparr>exc_type = ''LLMAnalysisException'', exc_message = ''No competitor data provided''\<rparr>
      else case api of
        Inl e \<Rightarrow>
          Inl \<lparr>exc_type = ''LLMAnalysisException'',
               exc_message =
                 (if exc_type e = ''JSONDecodeError''
                  then ''Invalid JSON response from GPT: '' @ exc_message e
                  else ''OpenAI API error: '' @ exc_message e)\<rparr>
      | Inr result \<Rightarrow>
          Inr \<lparr>ls_insights = (case lsr_insights result of None \<Rightarrow> '''' | Some i \<Rightarrow> i),
               ls_opportunities = (case lsr_opportunities result of None \<Rightarrow> [] | Some l \<Rightarrow> l),
               ls_threats = (case lsr_threats result of None \<Rightarrow> [] | Some l \<Rightarrow> l)\<rparr>)"

definition analyze_competitive_landscape :: "nat \<Rightarrow> (nat \<Rightarrow> py_exception + landscape_response) \<Rightarrow> py_exception + landscape" where
  "analyze_competitive_landscape n_competitors api_attempts =
     stop_after_attempt_3 (\<lambda>n. competitive_landscape_attempt n_competitors (api_attempts n))"

text \<open>A member of a batch after its pipeline has run: its label, its request row and its
  stored result, if any.\<close>

record batch_url =
  bu_label :: "string option"
  bu_request :: AnalysisRequest
  bu_result :: "AnalysisResult option"

record score_entry =
  se_url :: string
  se_score :: pyfloat
  se_label :: "string option"

record ranking =
  rk_url :: string
  rk_label :: "string option"
  rk_score :: pyfloat
  rk_rank :: nat
  rk_delta_from_leader :: pyfloat
  rk_delta_from_average :: pyfloat

record comparison_result =
  cmp_seo_rankings :: "ranking list"
  cmp_seo_average :: pyfloat
  cmp_seo_leader :: "score_entry option"
  cmp_aeo_rankings :: "ranking list"
  cmp_aeo_average :: pyfloat
  cmp_aeo_leader :: "score_entry option"
  competitive_insights :: string
  opportunities :: "string list"
  threats :: "string list"

text \<open>\<open>_fetch_completed_results\<close>: the stored results of the batch's requests, kept when
  the request is COMPLETED.\<close>

definition fetch_completed_results :: "batch_url list \<Rightarrow> (AnalysisRequest \<times> AnalysisResult) list" where
  "fetch_completed_results urls =
     concat (map (\<lambda>u. case bu_result u of
                         None \<Rightarrow> []
                       | Some r \<Rightarrow> (if status (bu_request u) = COMPLETED then [(bu_request u, r)] else []))
                 urls)"

text \<open>\<open>_calculate_rankings\<close>. \<open>_get_url_label\<close> always returns \<open>None\<close>. Sorting with
  \<open>reverse=True\<close> is stable: entries of equal score keep their order.\<close>

definition average :: "pyfloat list \<Rightarrow> pyfloat" where
  "average xs = (if xs = [] then 0 else fdiv (py_sum xs) (of_nat (length xs)))"

definition calculate_rankings :: "(AnalysisRequest \<times> AnalysisResult) list \<Rightarrow> bool \<Rightarrow> ranking list" where
  "calculate_rankings results seo =
     (let scores = map (\<lambda>(request, result).
                      \<lparr>se_url = url request,
                       se_score = py_round2 (if seo then res_seo_score result else res_aeo_score result),
                       se_label = None\<rparr>) results;
          sorted_scores = sort_key (\<lambda>s. - se_score s) scores;
          avg_score = average (map se_score sorted_scores);
          leader_score = (case sorted_scores of [] \<Rightarrow> 0 | s # _ \<Rightarrow> se_score s)
      in map (\<lambda>(idx, item).
               \<lparr>rk_url = se_url item, rk_label = se_label item, rk_score = se_score item,
                rk_rank = idx + 1,
                rk_delta_from_leader = py_round2 (fsub (se_score item) leader_score),
                rk_delta_from_average = py_round2 (fsub (se_score item) avg_score)\<rparr>)
             (enumerate 0 sorted_scores))"

definition identify_market_leader :: "ranking list \<Rightarrow> score_entry option" where
  "identify_market_leader rankings =
     (case rankings of
        [] \<Rightarrow> None
      | r # _ \<Rightarrow> Some \<lparr>se_url = rk_url r, se_score = rk_score r, se_label = rk_label r\<rparr>)"

definition calculate_market_average :: "ranking list \<Rightarrow> pyfloat" where
  "calculate_market_average rankings = py_round2 (average (map rk_score rankings))"

text \<open>\<open>generate_comparison\<close>. It returns \<open>None\<close> for fewer than two completed results;
  otherwise it computes the rankings, calls the model, and only then builds and commits the
  \<open>ComparisonResult\<close>. An exception of the call is logged and raised again. The summaries
  prepared for the prompt do not influence the stored record and are left out.\<close>

definition generate_comparison :: "batch_url list \<Rightarrow> (nat \<Rightarrow> py_exception + landscape_response)
    \<Rightarrow> py_exception + comparison_result option" where
  "generate_comparison urls api_attempts =
     (let results = fetch_completed_results urls in
      if length results < 2 then Inr None
      else
        (let seo_rankings = calculate_rankings results True;
             aeo_rankings = calculate_rankings results False
         in case analyze_competitive_landscape (length results) api_attempts of
              Inl e \<Rightarrow> Inl e
            | Inr llm_insights \<Rightarrow>
                Inr (Some \<lparr>cmp_seo_rankings = seo_rankings,
                           cmp_seo_average = calculate_market_average seo_rankings,
                           cmp_seo_leader = identify_market_leader seo_rankings,
                           cmp_aeo_rankings = aeo_rankings,
                           cmp_aeo_average = calculate_market_average aeo_rankings,
                           cmp_aeo_leader = identify_market_leader aeo_rankings,
                           competitive_insights = ls_insights llm_insights,
                           opportunities = ls_opportunities llm_insights,
                           threats = ls_threats llm_insights\<rparr>)))"

section \<open>The batch pipeline\<close>

text \<open>The row \<open>CompetitiveAnalysisBatch\<close>, without its timestamps, and the stored state
  of a batch: its row and its comparison, if one has been committed.\<close>

record CompetitiveAnalysisBatch =
  batch_id :: string
  batch_status :: AnalysisStatus
  batch_progress :: int
  batch_total_urls :: int
  completed_count :: int
  failed_count :: int
  batch_error_message :: "string option"

record batch_db =
  db_batch :: CompetitiveAnalysisBatch
  db_comparison :: "comparison_result option"

text \<open>A member of a batch before its pipeline runs, with what that pipeline will meet.\<close>

record batch_entry =
  be_label :: "string option"
  be_request :: AnalysisRequest
  be_env :: job_env

record batch_summary =
  bs_status :: AnalysisStatus
  bs_total_urls :: int
  bs_completed_count :: int
  bs_failed_count :: int
  bs_has_comparison :: bool

text \<open>The outcome of a batch run: the stored state after each commit, in order, the
  batch-level progress dictionaries sent for each member, and the value returned or the
  exception raised.\<close>

record batch_event =
  bev_status :: string
  bev_progress :: int
  bev_current_url :: int
  bev_total_urls :: int
  bev_current_step :: string
  bev_individual_progress :: int
  bev_individual_step :: string
  bev_individual_status :: string

record batch_outcome =
  bo_trace :: "batch_db list"
  bo_events :: "batch_event list list"
  bo_return :: "py_exception + batch_summary"

text \<open>Every member's pipeline runs to its end; the semaphore bounds how many run at once and
  does not change what each of them stores.\<close>

definition run_members :: "batch_entry list \<Rightarrow> run_outcome list" where
  "run_members entries = map (\<lambda>e. run_analysis (be_request e) (be_env e)) entries"

definition member_after :: "batch_entry \<Rightarrow> run_outcome \<Rightarrow> batch_url" where
  "member_after e out =
     \<lparr>bu_label = be_label e, bu_request = last (ro_trace out), bu_result = ro_result out\<rparr>"

definition members_after_run :: "batch_entry list \<Rightarrow> batch_url list" where
  "members_after_run entries =
     map (\<lambda>(e, out). member_after e out) (zip entries (run_members entries))"

text \<open>The number of members whose pipeline has ended in the state COMPLETED.\<close>

definition completed_members :: "batch_entry list \<Rightarrow> nat" where
  "completed_members entries =
     length (filter (\<lambda>u. status (bu_request u) = COMPLETED) (members_after_run entries))"

subsection \<open>\<open>app/services/competitive_orchestrator.py\<close>\<close>

text \<open>The callback made by \<open>_create_individual_progress_callback\<close> for the member at
  \<open>url_index\<close>. \<open>aggregate_progress\<close> is the value of
  \<open>int((url_index / total_urls) * 100 + (url_progress / 100) * (1 / total_urls) * 100)\<close>.\<close>

definition aggregate_progress :: "int \<Rightarrow> int \<Rightarrow> int \<Rightarrow> int" where
  "aggregate_progress url_index total_urls url_progress =
     (let base_contribution = fmul (fdiv (of_int url_index) (of_int total_urls)) 100;
          current_contribution =
            fmul (fmul (fdiv (of_int url_progress) 100) (fdiv 1 (of_int total_urls))) 100
      in py_int (fadd base_contribution current_contribution))"

definition individual_progress :: "nat \<Rightarrow> nat \<Rightarrow> progress_data \<Rightarrow> py_exception + batch_event" where
  "individual_progress url_index total_urls progress_data =
     (let url_progress = (case pd_progress progress_data of None \<Rightarrow> 0 | Some p \<Rightarrow> p);
          step = (case pd_step progress_data of None \<Rightarrow> '''' | Some s \<Rightarrow> s)
      in if total_urls = 0 then
           Inl \<lparr>exc_type = ''ZeroDivisionError'', exc_message = ''division by zero''\<rparr>
         else
           Inr \<lparr>bev_status = ''processing'',
                bev_progress = min (aggregate_progress (int url_index) (int total_urls) url_progress) 99,
                bev_current_url = int url_index + 1,
                bev_total_urls = int total_urls,
                bev_current_step = ''URL '' @ str_nat (url_index + 1) @ ''/'' @ str_nat total_urls
                   @ '': '' @ step,
                bev_individual_progress = url_progress,
                bev_individual_step = step,
                bev_individual_status =
                  (case pd_status progress_data of None \<Rightarrow> ''processing'' | Some s \<Rightarrow> s)\<rparr>)"

text \<open>The batch-level dictionaries that the member at \<open>url_index\<close> causes: one for each
  dictionary its pipeline passes to the callback.\<close>

definition member_events :: "nat \<Rightarrow> nat \<Rightarrow> run_outcome \<Rightarrow> batch_event list" where
  "member_events url_index total_urls out =
     concat (map (\<lambda>pd. case individual_progress url_index total_urls pd of
                          Inl e \<Rightarrow> [] | Inr ev \<Rightarrow> [ev])
                 (ro_events out))"

definition handle_batch_error :: "CompetitiveAnalysisBatch \<Rightarrow> py_exception \<Rightarrow> CompetitiveAnalysisBatch" where
  "handle_batch_error batch error =
     batch\<lparr>batch_status := FAILED, batch_progress := 100,
            batch_error_message := Some (exc_message error)\<rparr>"

text \<open>\<open>run_competitive_analysis\<close>. The counts are assigned to the row object before the
  aggregator runs. The aggregator works in the same session, so its commit stores them with
  the comparison; and when it raises, \<open>_handle_batch_error\<close> reads the same row object from
  the session and commits the counts with the failure.\<close>

definition run_competitive_analysis :: "batch_db \<Rightarrow> batch_entry list
    \<Rightarrow> (nat \<Rightarrow> py_exception + landscape_response) \<Rightarrow> batch_outcome" where
  "run_competitive_analysis db url_entries api_attempts =
     (let batch0 = (db_batch db)\<lparr>batch_status := PROCESSING, batch_progress := 0\<rparr>;
          db0 = db\<lparr>db_batch := batch0\<rparr>
      in if url_entries = [] then
           (let e = \<lparr>exc_type = ''AnalysisException'',
                     exc_message = ''No URLs found for batch '' @ batch_id batch0\<rparr>
            in \<lparr>bo_trace = [db0, db0\<lparr>db_batch := handle_batch_error batch0 e\<rparr>],
                bo_events = [], bo_return = Inl e\<rparr>)
         else
     (let outs = run_members url_entries;
          urls = members_after_run url_entries;
          events = map (\<lambda>(idx, out). member_events idx (length url_entries) out) (enumerate 0 outs);
          completed = int (length (filter (\<lambda>u. status (bu_request u) = COMPLETED) urls));
          failed = int (length url_entries) - completed;
          batch1 = batch0\<lparr>completed_count := completed, failed_count := failed\<rparr>
      in case (if completed \<ge> 2 then generate_comparison urls api_attempts else Inr None) of
           Inl e \<Rightarrow>
             \<lparr>bo_trace = [db0, db0\<lparr>db_batch := handle_batch_error batch1 e\<rparr>],
              bo_events = events, bo_return = Inl e\<rparr>
         | Inr comparison \<Rightarrow>
     (let db1 = \<lparr>db_batch = batch1, db_comparison = comparison\<rparr>;
          final_status = (if completed = 0 then FAILED else if completed \<ge> 2 then COMPLETED else FAILED);
          batch2 =
            (if completed = 0 then
               batch1\<lparr>batch_error_message := Some ''All URL analyses failed'', batch_progress := 100\<rparr>
             else if completed \<ge> 2 then batch1\<lparr>batch_progress := 100\<rparr>
             else batch1\<lparr>batch_error_message :=
                            Some ''Insufficient successful analyses (minimum 2 required)'',
                          batch_progress := 100\<rparr>);
          db2 = db1\<lparr>db_batch := batch2\<lparr>batch_status := final_status\<rparr>\<rparr>
      in \<lparr>bo_trace = (if comparison = None then [db0, db2] else [db0, db1, db2]),
          bo_events = events,
          bo_return = Inr \<lparr>bs_status = final_status, bs_total_urls = int (length url_entries),
                            bs_completed_count = completed, bs_failed_count = failed,
                            bs_has_comparison = (comparison \<noteq> None)\<rparr>\<rparr>)))"

subsection \<open>\<open>app/services/competitive_orchestrator_sync.py\<close>\<close>

definition update_batch_progress :: "batch_db \<Rightarrow> int \<Rightarrow> batch_db" where
  "update_batch_progress db p = db\<lparr>db_batch := (db_batch db)\<lparr>batch_progress := p\<rparr>\<rparr>"

text \<open>\<open>_finalize_batch(status, completed_count=0, failed_count=0, error_message=None)\<close>;
  the message is stored when it is neither \<open>None\<close> nor empty.\<close>

definition finalize_batch :: "batch_db \<Rightarrow> AnalysisStatus \<Rightarrow> int \<Rightarrow> int \<Rightarrow> string option \<Rightarrow> batch_db" where
  "finalize_batch db st completed failed message =
     (let batch = (db_batch db)\<lparr>batch_status := st, batch_progress := 100,
                                completed_count := completed, failed_count := failed\<rparr>
      in db\<lparr>db_batch :=
             (case message of
                None \<Rightarrow> batch
              | Some m \<Rightarrow> (if m = [] then batch else batch\<lparr>batch_error_message := Some m\<rparr>))\<rparr>)"

text \<open>The \<open>except\<close> branch of \<open>run_analysis\<close>: \<open>_finalize_batch(status=FAILED,
  error_message=str(e)[:500])\<close>, with the default counts.\<close>

definition finalize_failed :: "batch_db \<Rightarrow> py_exception \<Rightarrow> batch_db" where
  "finalize_failed db e = finalize_batch db FAILED 0 0 (Some (take 500 (exc_message e)))"

text \<open>A member's result dictionary has the status \<open>completed\<close> when its pipeline returned
  and a stored result was found.\<close>

definition result_completed :: "run_outcome \<Rightarrow> bool" where
  "result_completed out = (case ro_return out of Inl e \<Rightarrow> False | Inr s \<Rightarrow> ro_result out \<noteq> None)"

definition run_analysis_sync :: "batch_db \<Rightarrow> batch_entry list
    \<Rightarrow> (nat \<Rightarrow> py_exception + landscape_response) \<Rightarrow> batch_outcome" where
  "run_analysis_sync db url_entries api_attempts =
     (let db0 = update_batch_progress db 5
      in if url_entries = [] then
           (let e = \<lparr>exc_type = ''Exception'',
                     exc_message = ''No URLs found for batch '' @ batch_id (db_batch db)\<rparr>
            in \<lparr>bo_trace = [db0, finalize_failed db0 e], bo_events = [], bo_return = Inl e\<rparr>)
         else
     (let db1 = db0\<lparr>db_batch := (db_batch db0)\<lparr>batch_status := PROCESSING, batch_progress := 10\<rparr>\<rparr>;
          outs = run_members url_entries;
          urls = members_after_run url_entries;
          db2 = update_batch_progress db1 80;
          completed_results = filter result_completed outs
      in case (if length completed_results \<ge> 2 then generate_comparison urls api_attempts
               else Inr None) of
           Inl e \<Rightarrow>
             \<lparr>bo_trace = [db0, db1, db2, finalize_failed db2 e], bo_events = [], bo_return = Inl e\<rparr>
         | Inr comparison \<Rightarrow>
     (let db3 = db2\<lparr>db_comparison := comparison\<rparr>;
          db4 = update_batch_progress db3 95;
          completed = int (length completed_results);
          failed = int (length outs) - completed;
          final_status = (if completed = 0 then FAILED else if completed \<ge> 2 then COMPLETED else FAILED);
          message =
            (if completed = 0 then Some ''All URL analyses failed''
             else if completed \<ge> 2 then None
             else Some ''Insufficient successful analyses (minimum 2 required)'');
          db5 = finalize_batch db4 final_status completed failed message
      in \<lparr>bo_trace = (if comparison = None then [db0, db1, db2, db4, db5]
                       else [db0, db1, db2, db3, db4, db5]),
          bo_events = [],
          bo_return = Inr \<lparr>bs_status = final_status, bs_total_urls = int (length url_entries),
                            bs_completed_count = completed, bs_failed_count = failed,
                            bs_has_comparison = (comparison \<noteq> None)\<rparr>\<rparr>)))"

text \<open>A batch as the API creates it for a list of URLs.\<close>

definition new_batch :: "string \<Rightarrow> nat \<Rightarrow> batch_db" where
  "new_batch bid n =
     \<lparr>db_batch = \<lparr>batch_id = bid, batch_status = PENDING, batch_progress = 0,
                  batch_total_urls = int n, completed_count = 0, failed_count = 0,
                  batch_error_message = None\<rparr>,
      db_comparison = None\<rparr>"



text \<open>The specification's formula for the overall rule score, in exact arithmetic: the
  weighted sum of the six category sub-scores with the weights 0.25, 0.15, 0.20, 0.15, 0.10
  and 0.15, rounded to two decimals.\<close>

definition spec_rule_score :: "(string \<Rightarrow> int) \<Rightarrow> rat" where
  "spec_rule_score c =
     (let weighted_sum = (25 / 100) * of_int (c ''meta_tags'')
                       + (15 / 100) * of_int (c ''headings'')
                       + (20 / 100) * of_int (c ''performance'')
                       + (15 / 100) * of_int (c ''mobile'')
                       + (10 / 100) * of_int (c ''security'')
                       + (15 / 100) * of_int (c ''structured_data'')
      in of_int (round_half_even (weighted_sum * 100)) / 100)"

text \<open>Two runs used as concrete inputs below: a crawl that times out, and a crawl that
  returns the scenario-1 snapshot followed by an answer of the model at its first attempt.\<close>

definition unreachable_env :: job_env where
  "unreachable_env =
     \<lparr>env_crawl = Inl \<lparr>exc_type = ''CrawlerException'',
                         exc_message = ''Timeout while loading the page''\<rparr>,
      env_llm = (\<lambda>n. Inl \<lparr>exc_type = ''APIError'', exc_message = ''not reached''\<rparr>),
      env_save = None\<rparr>"

definition healthy_env :: job_env where
  "healthy_env =
     \<lparr>env_crawl = Inr (scenario1 (replicate 136 CHR ''d'')),
      env_llm = (\<lambda>n. Inr \<lparr>lr_fields =
                           [(''what_it_does'', ''Sells handmade oak furniture online''),
                            (''products_services'', ''Tables and chairs''),
                            (''target_audience'', ''Home owners who value craft''),
                            (''unique_value'', ''Made to order''),
                            (''overall_impression'', ''Clear, but pricing is missing'')],
                         lr_clarity_score = Some 7\<rparr>),
      env_save = None\<rparr>"

text \<open>Concrete batches used below: members created by the API for a URL, and two behaviours
  of the model behind the aggregator, one that never answers and one that answers at once.\<close>

definition member :: "string \<Rightarrow> string \<Rightarrow> job_env \<Rightarrow> batch_entry" where
  "member rid u env = \<lparr>be_label = None, be_request = new_request rid u, be_env = env\<rparr>"

definition failing_api :: "nat \<Rightarrow> py_exception + landscape_response" where
  "failing_api n = Inl \<lparr>exc_type = ''APIConnectionError'', exc_message = ''Connection error.''\<rparr>"


section \<open>Properties of the rule scorer\<close>

lemma fl_consts:
  "fl (25 / 100) = 1 / 4"
  "fl (15 / 100) = 5404319552844595 / 36028797018963968"
  "fl (20 / 100) = 3602879701896397 / 18014398509481984"
  "fl (10 / 100) = 3602879701896397 / 36028797018963968"
  by code_simp+

lemma has_valid_schema_iff:
  "has_valid_schema sd \<longleftrightarrow> (\<exists>item \<in> set sd. in_valid_types (item_type_of item))"
  by (induction sd) auto

lemma scenario1_headings:
  "pa_score (analyze_headings [(''h1'', [''Example Domain'']), (''h2'', [''Reference'']),
                               (''h3'', []), (''h4'', []), (''h5'', []), (''h6'', [])]) = 100"
  by code_simp

lemma scenario1_meta:
  assumes "length description = 136"
  shows "pa_score (analyze_meta_tags [(''title'', ''Example Domain Reference Page''),
                                      (''description'', description)]) = 60"
proof -
  have "description \<noteq> []" using assms by auto
  then show ?thesis using assms
    by (simp add: analyze_meta_tags_def meta_title_def meta_description_def meta_open_graph_def
        meta_canonical_def get_def keys_def TITLE_MIN_LENGTH_def TITLE_MAX_LENGTH_def
        DESCRIPTION_MIN_LENGTH_def DESCRIPTION_MAX_LENGTH_def Let_def)
qed

lemma scenario1_total:
  "py_round2 (total_score [(''meta_tags'', 60), (''headings'', 100), (''performance'', 100),
       (''mobile'', 100), (''security'', 100), (''structured_data'', 100)]) = 90"
  by code_simp

lemma scenario1_analyze:
  assumes "length description = 136"
  shows "seo_category_scores (analyze (scenario1 description)) =
           [(''meta_tags'', 60), (''headings'', 100), (''performance'', 100),
            (''mobile'', 100), (''security'', 100), (''structured_data'', 100)]
       \<and> seo_score (analyze (scenario1 description)) = 90"
proof -
  have sd: "analyze_structured_data [[(''@type'', JStr ''Organization'')]] = (100, [])"
    by code_simp
  have perf: "pf_score (analyze_performance (3 / 2)) = 100"
    by (simp add: analyze_performance_def PERF_EXCELLENT_def)
  show ?thesis
    by (simp add: analyze_def scenario1_def Let_def scenario1_meta[OF assms] scenario1_headings
        sd perf analyze_mobile_def analyze_security_def scenario1_total)
qed

text \<open>
  Claim C9, as amended. On the scenario-1 snapshot, with any description of 136
  characters, the rule scorer returns the sub-scores meta 60 (20 for the title, which has
  29 characters and is below the minimum of 30, plus 40 for the description), headings 100,
  performance 100, mobile 100, security 100 and structured data 100, and the overall score
  90.00.
\<close>

theorem C9_scenario1_scores:
  assumes "length description = 136"
  shows "seo_category_scores (analyze (scenario1 description)) =
           [(''meta_tags'', 60), (''headings'', 100), (''performance'', 100),
            (''mobile'', 100), (''security'', 100), (''structured_data'', 100)]
       \<and> seo_score (analyze (scenario1 description)) = 90"
  using assms by (rule scenario1_analyze)

theorem C9_scenario1_scores_witness:
  "length (replicate 136 CHR ''d'') = 136
   \<and> seo_category_scores (analyze (scenario1 (replicate 136 CHR ''d''))) =
           [(''meta_tags'', 60), (''headings'', 100), (''performance'', 100),
            (''mobile'', 100), (''security'', 100), (''structured_data'', 100)]
   \<and> seo_score (analyze (scenario1 (replicate 136 CHR ''d''))) = 90"
  using C9_scenario1_scores [of "replicate 136 CHR ''d''"] by simp

text \<open>
  Claim C9 as stated (meta 80 and overall 95.00) fails on the scenario-1 snapshot whose
  description is 136 times the letter d.
\<close>

theorem C9_counterexample:
  "\<not> (get (seo_category_scores (analyze (scenario1 (replicate 136 CHR ''d'')))) ''meta_tags'' 0 = 80
      \<and> seo_score (analyze (scenario1 (replicate 136 CHR ''d''))) = 95)"
proof -
  have "length (replicate 136 CHR ''d'') = 136" by simp
  from scenario1_analyze [OF this] show ?thesis by (simp add: get_def)
qed

text \<open>
  Claim C10. For every crawl result whose structured-data entries all carry a list-valued
  \<open>@type\<close>, the structured-data sub-score is 0 for no entry, 100 when the first element of
  some entry's \<open>@type\<close> list is one of Organization, WebSite, Article, Product,
  LocalBusiness, FAQPage and BreadcrumbList, and 50 otherwise; an entry with an empty
  \<open>@type\<close> list never matches.
\<close>

theorem C10_list_valued_type:
  assumes sd: "cd_structured_data d = Some sd"
    and lists: "\<forall>item \<in> set sd. \<exists>ts. map_of item ''@type'' = Some (JArr ts)"
  shows "get (seo_category_scores (analyze d)) ''structured_data'' 0 =
           (if sd = [] then 0
            else if \<exists>item \<in> set sd. \<exists>t ts. map_of item ''@type'' = Some (JArr (JStr t # ts))
                      \<and> t \<in> {''Organization'', ''WebSite'', ''Article'', ''Product'',
                               ''LocalBusiness'', ''FAQPage'', ''BreadcrumbList''}
            then 100 else 50)"
proof -
  define P where "P item \<longleftrightarrow>
      (\<exists>t ts. map_of item ''@type'' = Some (JArr (JStr t # ts))
          \<and> t \<in> {''Organization'', ''WebSite'', ''Article'', ''Product'',
                   ''LocalBusiness'', ''FAQPage'', ''BreadcrumbList''})" for item
  have match: "in_valid_types (item_type_of item) \<longleftrightarrow> P item" if "item \<in> set sd" for item
  proof -
    from lists that obtain ts where ts: "map_of item ''@type'' = Some (JArr ts)" by blast
    show ?thesis
    proof (cases ts)
      case Nil
      then show ?thesis
        using ts by (simp add: P_def item_type_of_def get_def in_valid_types_def valid_types_def)
    next
      case (Cons t0 rest)
      then show ?thesis
        using ts
        by (cases t0) (simp_all add: P_def item_type_of_def get_def in_valid_types_def valid_types_def)
    qed
  qed
  have "has_valid_schema sd \<longleftrightarrow> (\<exists>item \<in> set sd. P item)"
    unfolding has_valid_schema_iff using match by (rule bex_cong [OF refl])
  then have hv: "has_valid_schema sd \<longleftrightarrow>
      (\<exists>item \<in> set sd. \<exists>t ts. map_of item ''@type'' = Some (JArr (JStr t # ts))
          \<and> t \<in> {''Organization'', ''WebSite'', ''Article'', ''Product'',
                   ''LocalBusiness'', ''FAQPage'', ''BreadcrumbList''})"
    unfolding P_def .
  have "get (seo_category_scores (analyze d)) ''structured_data'' 0 = fst (analyze_structured_data sd)"
    using sd by (simp add: analyze_def Let_def get_def)
  also have "\<dots> = (if sd = [] then 0 else if has_valid_schema sd then 100 else 50)"
    by (simp add: analyze_structured_data_def)
  finally show ?thesis unfolding hv .
qed

theorem C10_list_valued_type_witness:
  "cd_structured_data ((scenario1 '''')\<lparr>cd_structured_data :=
       Some [[(''@type'', JArr [])], [(''@type'', JArr [JStr ''Product'', JStr ''Thing''])]]\<rparr>)
     = Some [[(''@type'', JArr [])], [(''@type'', JArr [JStr ''Product'', JStr ''Thing''])]]
   \<and> (\<exists>ts. map_of [(''@type'', JArr [])] ''@type'' = Some (JArr ts))
   \<and> (\<exists>ts. map_of [(''@type'', JArr [JStr ''Product'', JStr ''Thing''])] ''@type'' = Some (JArr ts))
   \<and> get (seo_category_scores (analyze ((scenario1 '''')\<lparr>cd_structured_data :=
       Some [[(''@type'', JArr [])], [(''@type'', JArr [JStr ''Product'', JStr ''Thing''])]]\<rparr>)))
         ''structured_data'' 0 = 100"
proof -
  let ?sd = "[[(''@type'', JArr [])], [(''@type'', JArr [JStr ''Product'', JStr ''Thing''])]]"
  let ?d = "(scenario1 '''')\<lparr>cd_structured_data := Some ?sd\<rparr>"
  have a: "cd_structured_data ?d = Some ?sd" by simp
  have b: "\<forall>item \<in> set ?sd. \<exists>ts. map_of item ''@type'' = Some (JArr ts)" by simp
  have c: "\<exists>item \<in> set ?sd. \<exists>t ts. map_of item ''@type'' = Some (JArr (JStr t # ts))
                      \<and> t \<in> {''Organization'', ''WebSite'', ''Article'', ''Product'',
                               ''LocalBusiness'', ''FAQPage'', ''BreadcrumbList''}" by simp
  have "get (seo_category_scores (analyze ?d)) ''structured_data'' 0 = 100"
    using C10_list_valued_type [OF a b] c by (simp only: if_True if_False list.distinct)
  then show ?thesis using a by simp
qed

section \<open>Properties of the float model\<close>

text \<open>Rounding a non-negative number to a float changes it by at most the fraction
  \<open>2\<^sup>-\<^sup>5\<^sup>3\<close> of its value.\<close>

lemma round_half_even_err: "\<bar>of_int (round_half_even y) - y\<bar> \<le> 1 / 2"
  unfolding round_half_even_def Let_def
  by (auto simp: abs_if) linarith+

lemma ilog2_le:
  assumes "0 < x"
  shows "power_int 2 (ilog2 x) \<le> x"
proof -
  obtain p q where pq: "quotient_of x = (p, q)" by (cases "quotient_of x")
  have q: "0 < q" using pq by (rule quotient_of_denom_pos)
  have x: "x = of_int p / of_int q" using pq by (rule quotient_of_div)
  have p: "0 < p" using assms q x by (simp add: zero_less_divide_iff)
  let ?a = "bitlen p" and ?b = "bitlen q"
  show ?thesis
  proof (cases "power_int 2 (?a - ?b) \<le> x")
    case True
    then show ?thesis by (simp add: ilog2_def pq)
  next
    case False
    have a1: "1 \<le> ?a" using p bitlen_eq_zero_iff[of p] bitlen_nonneg[of p] by linarith
    have lo: "(2::int) ^ nat (?a - 1) \<le> p" using bitlen_bounds[OF p] by simp
    have hi: "q < (2::int) ^ nat ?b" using bitlen_bounds[OF q] by simp
    have lo': "(2::rat) ^ nat (?a - 1) \<le> of_int p"
      using lo by (metis of_int_le_iff of_int_numeral of_int_power)
    have hi': "of_int q \<le> (2::rat) ^ nat ?b"
      using hi by (metis less_imp_le of_int_le_iff of_int_numeral of_int_power)
    have "power_int (2::rat) (?a - ?b - 1) = power_int 2 (?a - 1) / power_int 2 ?b"
      using power_int_diff[of "2::rat" "?a - 1" ?b] by (simp add: algebra_simps)
    also have "\<dots> = 2 ^ nat (?a - 1) / 2 ^ nat ?b"
      using a1 bitlen_nonneg[of q] by (simp add: power_int_def)
    also have "\<dots> \<le> of_int p / of_int q"
      using lo' hi' q p by (intro frac_le) auto
    finally have "power_int (2::rat) (?a - ?b - 1) \<le> x" by (simp add: x)
    then show ?thesis using False by (simp add: ilog2_def pq)
  qed
qed

lemma fl_err:
  assumes "0 \<le> x"
  shows "\<bar>fl x - x\<bar> \<le> x / 2 ^ 53"
proof (cases "x = 0")
  case True
  then show ?thesis by (simp add: fl_def)
next
  case False
  then have pos: "0 < x" using assms by simp
  define P :: rat where "P = power_int 2 (ilog2 x - 52)"
  have P: "0 < P" by (simp add: P_def)
  have "power_int (2::rat) (ilog2 x) = power_int 2 (ilog2 x - 52) * power_int 2 52"
    using power_int_add[of "2::rat" "ilog2 x - 52" 52] by simp
  then have "P * 2 ^ 52 \<le> x" using ilog2_le[OF pos] by (simp add: P_def)
  then have Pb: "P / 2 \<le> x / 2 ^ 53" by (simp add: field_simps)
  have flx: "fl x = of_int (round_half_even (x / P)) * P"
    using pos by (simp add: fl_def P_def Let_def)
  have "fl x - x = (of_int (round_half_even (x / P)) - x / P) * P"
    using P by (simp add: flx algebra_simps)
  then have "\<bar>fl x - x\<bar> = \<bar>of_int (round_half_even (x / P)) - x / P\<bar> * P"
    using P by (simp add: abs_mult)
  also have "\<dots> \<le> (1 / 2) * P"
    using round_half_even_err[of "x / P"] P by (intro mult_right_mono) auto
  finally show ?thesis using Pb by simp
qed

lemma fl_err_numeral: "0 \<le> x \<Longrightarrow> \<bar>fl x - x\<bar> \<le> x / 9007199254740992"
  using fl_err[of x] by simp

lemma fl_lower: "0 \<le> x \<Longrightarrow> x - x / 9007199254740992 \<le> fl x"
  using fl_err_numeral[of x] by linarith

lemma fl_upper: "0 \<le> x \<Longrightarrow> fl x \<le> x + x / 9007199254740992"
  using fl_err_numeral[of x] by linarith

lemma fl_nonneg: "0 \<le> x \<Longrightarrow> 0 \<le> fl x"
proof -
  assume x: "0 \<le> x"
  show ?thesis using fl_lower[OF x] x by linarith
qed


section \<open>Properties of the batch-level progress\<close>




section \<open>Properties of the semantic scorer\<close>

lemma round_half_even_of_int: "round_half_even (of_int z) = z"
  by (simp add: round_half_even_def)

lemma ilog2_less:
  assumes "0 < x" "x < 2 ^ n"
  shows "ilog2 x < int n"
proof (rule ccontr)
  assume "\<not> ilog2 x < int n"
  then have "int n \<le> ilog2 x" by simp
  then have "power_int (2::rat) (int n) \<le> power_int 2 (ilog2 x)"
    by (intro power_int_increasing) auto
  also have "\<dots> \<le> x" using assms(1) by (rule ilog2_le)
  finally show False using assms(2) by simp
qed

text \<open>A half-integer below \<open>2\<^sup>5\<^sup>1\<close> in absolute value is a float.\<close>

lemma fl_half_exact:
  assumes "\<bar>m\<bar> < 2 ^ 52"
  shows "fl (of_int m / 2) = of_int m / 2"
proof (cases "m = 0")
  case True
  then show ?thesis by (simp add: fl_def)
next
  case False
  define x :: rat where "x = of_int m / 2"
  have x0: "x \<noteq> 0" using False by (simp add: x_def)
  have "\<bar>x\<bar> = of_int \<bar>m\<bar> / 2" by (simp add: x_def)
  also have "\<dots> < of_int (2 ^ 52) / 2" using assms by (simp only: of_int_less_iff divide_strict_right_mono zero_less_numeral)
  finally have "\<bar>x\<bar> < 2 ^ 51" by simp
  then have "ilog2 \<bar>x\<bar> < int 51" using x0 by (intro ilog2_less) auto
  then have e: "ilog2 \<bar>x\<bar> - 52 \<le> - 2" by simp
  define n where "n = nat (- (ilog2 \<bar>x\<bar> - 52) - 1)"
  have en: "ilog2 \<bar>x\<bar> - 52 = - int (Suc n)" using e by (simp add: n_def)
  have P: "power_int (2::rat) (ilog2 \<bar>x\<bar> - 52) = 1 / 2 ^ Suc n"
    unfolding en by (simp only: power_int_minus_divide power_int_of_nat)
  have "x / power_int 2 (ilog2 \<bar>x\<bar> - 52) = of_int (m * 2 ^ n)"
    unfolding P by (simp add: x_def)
  then have "fl x = of_int (m * 2 ^ n) * (1 / 2 ^ Suc n)"
    using x0 by (simp add: fl_def Let_def round_half_even_of_int P del: power_Suc of_int_mult of_int_power)
  also have "\<dots> = x" by (simp add: x_def)
  finally show ?thesis by (simp add: x_def)
qed

lemma fl_int_exact: "\<bar>z\<bar> < 2 ^ 51 \<Longrightarrow> fl (of_int z) = of_int z"
  using fl_half_exact [of "2 * z"] by simp










section \<open>Properties of the overall rule score\<close>

text \<open>Every category sub-score lies between 0 and 100.\<close>

lemma meta_parts_scores:
  "pa_score (meta_title m) \<in> {0, 20, 30, 40}"
  "pa_score (meta_description m) \<in> {0, 20, 30, 40}"
  "pa_score (meta_open_graph m) \<in> {0, 5, 10}"
  "pa_score (meta_canonical m) \<in> {0, 10}"
  unfolding meta_title_def meta_description_def meta_open_graph_def meta_canonical_def Let_def
    if_distrib [of pa_score] part_analysis.select_convs
  by simp_all

lemma meta_score_bounds:
  "0 \<le> pa_score (analyze_meta_tags m) \<and> pa_score (analyze_meta_tags m) \<le> 100"
proof -
  have "pa_score (analyze_meta_tags m) =
      min (pa_score (meta_title m) + pa_score (meta_description m)
           + pa_score (meta_open_graph m) + pa_score (meta_canonical m)) 100"
    unfolding analyze_meta_tags_def Let_def part_analysis.select_convs by simp
  with meta_parts_scores [of m] show ?thesis by auto
qed

lemma headings_parts_scores:
  "pa_score (headings_h1 h) \<le> 0"
  "pa_score (headings_h2 h) \<le> 0"
  "pa_score (headings_hierarchy h) \<le> 0"
  unfolding headings_h1_def headings_h2_def headings_hierarchy_def Let_def
    if_distrib [of pa_score] option.case_distrib [of pa_score] part_analysis.select_convs
  by (simp_all split: option.split)

lemma headings_score_bounds:
  "0 \<le> pa_score (analyze_headings h) \<and> pa_score (analyze_headings h) \<le> 100"
proof -
  have "pa_score (analyze_headings h) =
      max (100 + (pa_score (headings_h1 h) + pa_score (headings_h2 h)
           + pa_score (headings_hierarchy h))) 0"
    unfolding analyze_headings_def Let_def part_analysis.select_convs by simp
  with headings_parts_scores [of h] show ?thesis by auto
qed

lemma performance_score_bounds:
  "0 \<le> pf_score (analyze_performance t) \<and> pf_score (analyze_performance t) \<le> 100"
  unfolding analyze_performance_def if_distrib [of pf_score] perf_analysis.select_convs
  by simp

lemma flag_score_bounds:
  "0 \<le> fst (analyze_mobile b) \<and> fst (analyze_mobile b) \<le> 100"
  "0 \<le> fst (analyze_security b) \<and> fst (analyze_security b) \<le> 100"
  "0 \<le> fst (analyze_structured_data sd) \<and> fst (analyze_structured_data sd) \<le> 100"
  unfolding analyze_mobile_def analyze_security_def analyze_structured_data_def
    if_distrib [of fst] fst_conv
  by simp_all

text \<open>A number closer than one half to an integer is rounded to that integer.\<close>

lemma round_half_even_near:
  assumes "\<bar>y - of_int n\<bar> < 1 / 2"
  shows "round_half_even y = n"
proof (cases "of_int n \<le> y")
  case True
  have f: "\<lfloor>y\<rfloor> = n" using assms True by (intro floor_unique) linarith+
  have "y - of_int n < 1 / 2" using assms by linarith
  then show ?thesis by (simp add: round_half_even_def f Let_def)
next
  case False
  have f: "\<lfloor>y\<rfloor> = n - 1" using assms False by (intro floor_unique) (simp, linarith)+
  have "1 / 2 < y - of_int (n - 1)" "\<not> y - of_int (n - 1) < 1 / 2"
    using assms False by (simp, linarith)+
  then show ?thesis by (simp add: round_half_even_def f Let_def)
qed

text \<open>Rounding a number between 0 and 128 to a float moves it by at most \<open>2\<^sup>-\<^sup>4\<^sup>6\<close>.\<close>

lemma fl_near:
  assumes "0 \<le> x" and "x \<le> 128"
  shows "x - 1 / 70368744177664 \<le> fl x" "fl x \<le> x + 1 / 70368744177664"
  using fl_lower [OF assms(1)] fl_upper [OF assms(1)] assms(2) by linarith+

text \<open>The float operations of the weighted sum, for sub-scores between 0 and 100: a
  hundred times the computed sum differs from the exact integer
  \<open>25 r\<^sub>1 + 15 r\<^sub>2 + 20 r\<^sub>3 + 15 r\<^sub>4 + 10 r\<^sub>5 + 15 r\<^sub>6\<close> by less than one half.\<close>

lemma weighted_sum_err:
  fixes r1 r2 r3 r4 r5 r6 :: rat
  assumes "0 \<le> r1" "r1 \<le> 100" "0 \<le> r2" "r2 \<le> 100" "0 \<le> r3" "r3 \<le> 100"
    and "0 \<le> r4" "r4 \<le> 100" "0 \<le> r5" "r5 \<le> 100" "0 \<le> r6" "r6 \<le> 100"
  shows "\<bar>py_sum [fmul r1 (fl (25 / 100)), fmul r2 (fl (15 / 100)), fmul r3 (fl (20 / 100)),
                  fmul r4 (fl (15 / 100)), fmul r5 (fl (10 / 100)), fmul r6 (fl (15 / 100))] * 100
          - (25 * r1 + 15 * r2 + 20 * r3 + 15 * r4 + 10 * r5 + 15 * r6)\<bar> < 1 / 2"
proof -
  define a1 where "a1 = r1 * (1 / 4)"
  define a2 where "a2 = r2 * (5404319552844595 / 36028797018963968)"
  define a3 where "a3 = r3 * (3602879701896397 / 18014398509481984)"
  define a4 where "a4 = r4 * (5404319552844595 / 36028797018963968)"
  define a5 where "a5 = r5 * (3602879701896397 / 36028797018963968)"
  define a6 where "a6 = r6 * (5404319552844595 / 36028797018963968)"
  define t1 where "t1 = fl a1"
  define t2 where "t2 = fl a2"
  define t3 where "t3 = fl a3"
  define t4 where "t4 = fl a4"
  define t5 where "t5 = fl a5"
  define t6 where "t6 = fl a6"
  define s1 where "s1 = fl (0 + t1)"
  define s2 where "s2 = fl (s1 + t2)"
  define s3 where "s3 = fl (s2 + t3)"
  define s4 where "s4 = fl (s3 + t4)"
  define s5 where "s5 = fl (s4 + t5)"
  define s6 where "s6 = fl (s5 + t6)"
  define e :: rat where "e = 1 / 70368744177664"
  have e: "0 \<le> e" "e \<le> 1 / 100000" by (simp_all add: e_def)
  have sum: "py_sum [fmul r1 (fl (25 / 100)), fmul r2 (fl (15 / 100)), fmul r3 (fl (20 / 100)),
                  fmul r4 (fl (15 / 100)), fmul r5 (fl (10 / 100)), fmul r6 (fl (15 / 100))] = s6"
    by (simp only: py_sum_def foldl.simps fadd_def fmul_def fl_consts s6_def s5_def s4_def
        s3_def s2_def s1_def t1_def t2_def t3_def t4_def t5_def t6_def a1_def a2_def a3_def
        a4_def a5_def a6_def)
  have A1: "0 \<le> a1" "a1 \<le> 25" "a1 * 100 - 25 * r1 \<le> 1 / 1000" "- (1 / 1000) \<le> a1 * 100 - 25 * r1"
    using assms(1,2) unfolding a1_def by linarith+
  have A2: "0 \<le> a2" "a2 \<le> 16" "a2 * 100 - 15 * r2 \<le> 1 / 1000" "- (1 / 1000) \<le> a2 * 100 - 15 * r2"
    using assms(3,4) unfolding a2_def by linarith+
  have A3: "0 \<le> a3" "a3 \<le> 21" "a3 * 100 - 20 * r3 \<le> 1 / 1000" "- (1 / 1000) \<le> a3 * 100 - 20 * r3"
    using assms(5,6) unfolding a3_def by linarith+
  have A4: "0 \<le> a4" "a4 \<le> 16" "a4 * 100 - 15 * r4 \<le> 1 / 1000" "- (1 / 1000) \<le> a4 * 100 - 15 * r4"
    using assms(7,8) unfolding a4_def by linarith+
  have A5: "0 \<le> a5" "a5 \<le> 11" "a5 * 100 - 10 * r5 \<le> 1 / 1000" "- (1 / 1000) \<le> a5 * 100 - 10 * r5"
    using assms(9,10) unfolding a5_def by linarith+
  have A6: "0 \<le> a6" "a6 \<le> 16" "a6 * 100 - 15 * r6 \<le> 1 / 1000" "- (1 / 1000) \<le> a6 * 100 - 15 * r6"
    using assms(11,12) unfolding a6_def by linarith+
  have T1: "a1 - e \<le> t1" "t1 \<le> a1 + e" "0 \<le> t1"
    unfolding t1_def e_def using A1(1,2) by (simp_all add: fl_near fl_nonneg)
  have T2: "a2 - e \<le> t2" "t2 \<le> a2 + e" "0 \<le> t2"
    unfolding t2_def e_def using A2(1,2) by (simp_all add: fl_near fl_nonneg)
  have T3: "a3 - e \<le> t3" "t3 \<le> a3 + e" "0 \<le> t3"
    unfolding t3_def e_def using A3(1,2) by (simp_all add: fl_near fl_nonneg)
  have T4: "a4 - e \<le> t4" "t4 \<le> a4 + e" "0 \<le> t4"
    unfolding t4_def e_def using A4(1,2) by (simp_all add: fl_near fl_nonneg)
  have T5: "a5 - e \<le> t5" "t5 \<le> a5 + e" "0 \<le> t5"
    unfolding t5_def e_def using A5(1,2) by (simp_all add: fl_near fl_nonneg)
  have T6: "a6 - e \<le> t6" "t6 \<le> a6 + e" "0 \<le> t6"
    unfolding t6_def e_def using A6(1,2) by (simp_all add: fl_near fl_nonneg)
  have S1: "a1 - 2 * e \<le> s1" "s1 \<le> a1 + 2 * e" "0 \<le> s1"
  proof -
    have b: "0 \<le> 0 + t1" "0 + t1 \<le> 128" using T1 A1(2) e by linarith+
    from fl_near [OF b] fl_nonneg [OF b(1)] T1(1,2)
    show "a1 - 2 * e \<le> s1" "s1 \<le> a1 + 2 * e" "0 \<le> s1"
      unfolding s1_def e_def by linarith+
  qed
  have S2: "a1 + a2 - 4 * e \<le> s2" "s2 \<le> a1 + a2 + 4 * e" "0 \<le> s2"
  proof -
    have b: "0 \<le> s1 + t2" "s1 + t2 \<le> 128"
      using S1 T2 A1(2) A2(2) e by linarith+
    from fl_near [OF b] fl_nonneg [OF b(1)] S1(1,2) T2(1,2)
    show "a1 + a2 - 4 * e \<le> s2" "s2 \<le> a1 + a2 + 4 * e" "0 \<le> s2"
      unfolding s2_def e_def by linarith+
  qed
  have S3: "a1 + a2 + a3 - 6 * e \<le> s3" "s3 \<le> a1 + a2 + a3 + 6 * e" "0 \<le> s3"
  proof -
    have b: "0 \<le> s2 + t3" "s2 + t3 \<le> 128"
      using S2 T3 A1(2) A2(2) A3(2) e by linarith+
    from fl_near [OF b] fl_nonneg [OF b(1)] S2(1,2) T3(1,2)
    show "a1 + a2 + a3 - 6 * e \<le> s3" "s3 \<le> a1 + a2 + a3 + 6 * e" "0 \<le> s3"
      unfolding s3_def e_def by linarith+
  qed
  have S4: "a1 + a2 + a3 + a4 - 8 * e \<le> s4" "s4 \<le> a1 + a2 + a3 + a4 + 8 * e" "0 \<le> s4"
  proof -
    have b: "0 \<le> s3 + t4" "s3 + t4 \<le> 128"
      using S3 T4 A1(2) A2(2) A3(2) A4(2) e by linarith+
    from fl_near [OF b] fl_nonneg [OF b(1)] S3(1,2) T4(1,2)
    show "a1 + a2 + a3 + a4 - 8 * e \<le> s4" "s4 \<le> a1 + a2 + a3 + a4 + 8 * e" "0 \<le> s4"
      unfolding s4_def e_def by linarith+
  qed
  have S5: "a1 + a2 + a3 + a4 + a5 - 10 * e \<le> s5" "s5 \<le> a1 + a2 + a3 + a4 + a5 + 10 * e"
    "0 \<le> s5"
  proof -
    have b: "0 \<le> s4 + t5" "s4 + t5 \<le> 128"
      using S4 T5 A1(2) A2(2) A3(2) A4(2) A5(2) e by linarith+
    from fl_near [OF b] fl_nonneg [OF b(1)] S4(1,2) T5(1,2)
    show "a1 + a2 + a3 + a4 + a5 - 10 * e \<le> s5" "s5 \<le> a1 + a2 + a3 + a4 + a5 + 10 * e"
      "0 \<le> s5"
      unfolding s5_def e_def by linarith+
  qed
  have S6: "a1 + a2 + a3 + a4 + a5 + a6 - 12 * e \<le> s6"
    "s6 \<le> a1 + a2 + a3 + a4 + a5 + a6 + 12 * e"
  proof -
    have b: "0 \<le> s5 + t6" "s5 + t6 \<le> 128"
      using S5 T6 A1(2) A2(2) A3(2) A4(2) A5(2) A6(2) e by linarith+
    from fl_near [OF b] S5(1,2) T6(1,2)
    show "a1 + a2 + a3 + a4 + a5 + a6 - 12 * e \<le> s6"
      "s6 \<le> a1 + a2 + a3 + a4 + a5 + a6 + 12 * e"
      unfolding s6_def e_def by linarith+
  qed
  have lo: "- (1 / 2) < s6 * 100 - (25 * r1 + 15 * r2 + 20 * r3 + 15 * r4 + 10 * r5 + 15 * r6)"
    using S6(1) A1(4) A2(4) A3(4) A4(4) A5(4) A6(4) e by linarith
  have hi: "s6 * 100 - (25 * r1 + 15 * r2 + 20 * r3 + 15 * r4 + 10 * r5 + 15 * r6) < 1 / 2"
    using S6(2) A1(3) A2(3) A3(3) A4(3) A5(3) A6(3) e by linarith
  from lo hi show ?thesis unfolding sum by linarith
qed

text \<open>
  Claim C3. For every crawl result, \<open>analyze\<close> returns exactly the six category
  sub-scores, each between 0 and 100, and its overall score is their weighted sum with the
  weights 0.25 (meta tags), 0.15 (headings), 0.20 (performance), 0.15 (mobile), 0.10
  (security) and 0.15 (structured data), rounded to two decimals: the float operations of
  the code return the float nearest to the value of the specification's formula in exact
  arithmetic.
\<close>

theorem C3_rule_score_is_weighted_sum:
  "(let r = analyze d; c = (\<lambda>k. get (seo_category_scores r) k 0) in
      keys (seo_category_scores r) =
        [''meta_tags'', ''headings'', ''performance'', ''mobile'', ''security'', ''structured_data'']
    \<and> list_all (\<lambda>(k, s). 0 \<le> s \<and> s \<le> 100) (seo_category_scores r)
    \<and> seo_score r = fl (spec_rule_score c))"
proof -
  define meta_tags where "meta_tags = (case cd_meta_tags d of None \<Rightarrow> [] | Some m \<Rightarrow> m)"
  define headings where "headings = (case cd_headings d of None \<Rightarrow> [] | Some h \<Rightarrow> h)"
  define load_time where "load_time = (case cd_load_time d of None \<Rightarrow> 0 | Some t \<Rightarrow> t)"
  define mobile_friendly where
    "mobile_friendly = (case cd_mobile_friendly d of None \<Rightarrow> False | Some b \<Rightarrow> b)"
  define ssl_enabled where
    "ssl_enabled = (case cd_ssl_enabled d of None \<Rightarrow> False | Some b \<Rightarrow> b)"
  define structured_data where
    "structured_data = (case cd_structured_data d of None \<Rightarrow> [] | Some s \<Rightarrow> s)"
  define c1 where "c1 = pa_score (analyze_meta_tags meta_tags)"
  define c2 where "c2 = pa_score (analyze_headings headings)"
  define c3 where "c3 = pf_score (analyze_performance load_time)"
  define c4 where "c4 = fst (analyze_mobile mobile_friendly)"
  define c5 where "c5 = fst (analyze_security ssl_enabled)"
  define c6 where "c6 = fst (analyze_structured_data structured_data)"
  define n where "n = 25 * c1 + 15 * c2 + 20 * c3 + 15 * c4 + 10 * c5 + 15 * c6"
  have scores: "seo_category_scores (analyze d) =
      [(''meta_tags'', c1), (''headings'', c2), (''performance'', c3), (''mobile'', c4),
       (''security'', c5), (''structured_data'', c6)]"
    by (simp add: analyze_def Let_def c1_def c2_def c3_def c4_def c5_def c6_def meta_tags_def
        headings_def load_time_def mobile_friendly_def ssl_enabled_def structured_data_def)
  have score: "seo_score (analyze d) =
      py_round2 (py_sum [fmul (of_int c1) (fl (25 / 100)), fmul (of_int c2) (fl (15 / 100)),
                         fmul (of_int c3) (fl (20 / 100)), fmul (of_int c4) (fl (15 / 100)),
                         fmul (of_int c5) (fl (10 / 100)), fmul (of_int c6) (fl (15 / 100))])"
    by (simp add: analyze_def Let_def total_score_def WEIGHTS_def get_def c1_def c2_def c3_def
        c4_def c5_def c6_def meta_tags_def headings_def load_time_def mobile_friendly_def
        ssl_enabled_def structured_data_def)
  have b: "0 \<le> c1" "c1 \<le> 100" "0 \<le> c2" "c2 \<le> 100" "0 \<le> c3" "c3 \<le> 100"
    "0 \<le> c4" "c4 \<le> 100" "0 \<le> c5" "c5 \<le> 100" "0 \<le> c6" "c6 \<le> 100"
    unfolding c1_def c2_def c3_def c4_def c5_def c6_def
    using meta_score_bounds headings_score_bounds performance_score_bounds flag_score_bounds
    by blast+
  have br: "(0::rat) \<le> of_int c1" "(of_int c1 :: rat) \<le> 100"
    "(0::rat) \<le> of_int c2" "(of_int c2 :: rat) \<le> 100"
    "(0::rat) \<le> of_int c3" "(of_int c3 :: rat) \<le> 100"
    "(0::rat) \<le> of_int c4" "(of_int c4 :: rat) \<le> 100"
    "(0::rat) \<le> of_int c5" "(of_int c5 :: rat) \<le> 100"
    "(0::rat) \<le> of_int c6" "(of_int c6 :: rat) \<le> 100"
    using b by simp_all
  have n: "(of_int n :: rat) = 25 * of_int c1 + 15 * of_int c2 + 20 * of_int c3
      + 15 * of_int c4 + 10 * of_int c5 + 15 * of_int c6"
    by (simp add: n_def)
  have "round_half_even
      (py_sum [fmul (of_int c1) (fl (25 / 100)), fmul (of_int c2) (fl (15 / 100)),
               fmul (of_int c3) (fl (20 / 100)), fmul (of_int c4) (fl (15 / 100)),
               fmul (of_int c5) (fl (10 / 100)), fmul (of_int c6) (fl (15 / 100))] * 100) = n"
    using weighted_sum_err [OF br] unfolding n [symmetric] by (rule round_half_even_near)
  then have code: "seo_score (analyze d) = fl (of_int n / 100)"
    unfolding score py_round2_def by simp
  have "((25 / 100) * of_int c1 + (15 / 100) * of_int c2 + (20 / 100) * of_int c3
      + (15 / 100) * of_int c4 + (10 / 100) * of_int c5 + (15 / 100) * of_int c6) * 100
      = (of_int n :: rat)"
    unfolding n by (simp add: algebra_simps)
  then have spec: "spec_rule_score (\<lambda>k. get (seo_category_scores (analyze d)) k 0)
      = of_int n / 100"
    by (simp only: spec_rule_score_def Let_def scores get_def map_of.simps fst_conv snd_conv
        fun_upd_apply list.inject char.inject option.case refl if_True if_False simp_thms
        round_half_even_of_int)
  show ?thesis
    unfolding Let_def spec code
    using b by (simp add: scores keys_def)
qed

section \<open>Properties of the single-URL pipeline\<close>

text \<open>
  Claim C8. In every stored result, the list of recommendations is the rule scorer's
  recommendations followed by the semantic scorer's, sorted by priority with critical
  before high before medium before low (ranks 0, 1, 2, 3), and recommendations of equal
  rank keep the relative order they had in that concatenation.
\<close>

theorem C8_recommendations_sorted_stable:
  assumes "save_results request crawl_data seo aeo env = Inr result"
  shows "sorted (map priority_key (recommendations result))
       \<and> (\<forall>k. filter (\<lambda>x. priority_key x = k) (recommendations result)
               = filter (\<lambda>x. priority_key x = k) (seo_recommendations seo @ aeo_recommendations aeo))
       \<and> map (\<lambda>p. priority_key [(''priority'', p)]) [''critical'', ''high'', ''medium'', ''low'']
           = [0, 1, 2, 3]"
proof -
  from assms have recs: "recommendations result = all_recommendations seo aeo"
    by (auto simp: save_results_def split: option.splits)
  have "sorted (map priority_key (all_recommendations seo aeo))"
    unfolding all_recommendations_def by (rule sorted_sort_key)
  moreover have "filter (\<lambda>x. priority_key x = k) (all_recommendations seo aeo)
      = filter (\<lambda>x. priority_key x = k) (seo_recommendations seo @ aeo_recommendations aeo)" for k
    unfolding all_recommendations_def by (rule sort_key_stable)
  moreover have "map (\<lambda>p. priority_key [(''priority'', p)]) [''critical'', ''high'', ''medium'', ''low'']
      = [0, 1, 2, 3]"
    by (simp add: priority_key_def priority_order_def get_def)
  ultimately show ?thesis unfolding recs by blast
qed

theorem C8_recommendations_sorted_stable_witness:
  "map (\<lambda>x. get x ''title'' '''')
     (recommendations (projr (save_results (new_request ''job-1'' ''https://example.com'')
        (scenario1 '''')
        ((analyze (scenario1 ''''))\<lparr>seo_recommendations :=
           [mk_rec ''seo'' ''low'' ''A'' '''' '''', mk_rec ''seo'' ''critical'' ''B'' '''' '''',
            mk_rec ''seo'' ''high'' ''C'' '''' '''']\<rparr>)
        \<lparr>aeo_score = 59, aeo_brand_recognition = \<lparr>lr_fields = [], lr_clarity_score = Some 7\<rparr>,
          aeo_llm_model = ''m'',
          aeo_recommendations =
            [mk_rec ''aeo'' ''high'' ''D'' '''' '''', mk_rec ''aeo'' ''critical'' ''E'' '''' '''']\<rparr>
        healthy_env)))
   = [''B'', ''E'', ''C'', ''D'', ''A'']
   \<and> sorted (map priority_key (recommendations (projr (save_results
        (new_request ''job-1'' ''https://example.com'')
        (scenario1 '''')
        ((analyze (scenario1 ''''))\<lparr>seo_recommendations :=
           [mk_rec ''seo'' ''low'' ''A'' '''' '''', mk_rec ''seo'' ''critical'' ''B'' '''' '''',
            mk_rec ''seo'' ''high'' ''C'' '''' '''']\<rparr>)
        \<lparr>aeo_score = 59, aeo_brand_recognition = \<lparr>lr_fields = [], lr_clarity_score = Some 7\<rparr>,
          aeo_llm_model = ''m'',
          aeo_recommendations =
            [mk_rec ''aeo'' ''high'' ''D'' '''' '''', mk_rec ''aeo'' ''critical'' ''E'' '''' '''']\<rparr>
        healthy_env))))"
proof -
  define seo where "seo = (analyze (scenario1 ''''))\<lparr>seo_recommendations :=
           [mk_rec ''seo'' ''low'' ''A'' '''' '''', mk_rec ''seo'' ''critical'' ''B'' '''' '''',
            mk_rec ''seo'' ''high'' ''C'' '''' '''']\<rparr>"
  define aeo where "aeo = \<lparr>aeo_score = 59,
          aeo_brand_recognition = \<lparr>lr_fields = [], lr_clarity_score = Some 7\<rparr>,
          aeo_llm_model = ''m'',
          aeo_recommendations =
            [mk_rec ''aeo'' ''high'' ''D'' '''' '''', mk_rec ''aeo'' ''critical'' ''E'' '''' '''']\<rparr>"
  define run where "run = save_results (new_request ''job-1'' ''https://example.com'')
        (scenario1 '''') seo aeo healthy_env"
  have "env_save healthy_env = None" by (simp add: healthy_env_def)
  then obtain result where saved: "run = Inr result"
    and recs: "recommendations result = all_recommendations seo aeo"
    by (simp add: run_def save_results_def)
  have keys: "map priority_key (seo_recommendations seo @ aeo_recommendations aeo) = [3, 0, 1, 1, 0]"
    by (simp add: seo_def aeo_def priority_key_def priority_order_def get_def mk_rec_def)
  have "map (\<lambda>x. get x ''title'' '''') (all_recommendations seo aeo) = [''B'', ''E'', ''C'', ''D'', ''A'']"
    by (simp add: all_recommendations_def seo_def aeo_def priority_key_def priority_order_def
        get_def mk_rec_def)
  then have titles: "map (\<lambda>x. get x ''title'' '''') (recommendations (projr run))
      = [''B'', ''E'', ''C'', ''D'', ''A'']"
    by (simp add: saved recs)
  from C8_recommendations_sorted_stable [OF saved [unfolded run_def]]
  have "sorted (map priority_key (recommendations (projr run)))" by (simp add: saved)
  with titles show ?thesis unfolding run_def seo_def aeo_def by blast
qed

text \<open>How a run ends: either every stage succeeded, the last row is COMPLETED and a
  result is stored, or a stage raised, the last row is FAILED and nothing is stored.\<close>

lemma run_analysis_end:
  "(status (last (ro_trace (run_analysis request env))) = COMPLETED
      \<and> ro_result (run_analysis request env) \<noteq> None
      \<and> \<not> isl (ro_return (run_analysis request env)))
   \<or> (status (last (ro_trace (run_analysis request env))) = FAILED
      \<and> ro_result (run_analysis request env) = None
      \<and> isl (ro_return (run_analysis request env)))"
  by (simp add: run_analysis_def Let_def failed_run_def update_status_def update_progress_def
      handle_error_def split: sum.split)

lemma unreachable_run:
  "run_analysis request unreachable_env =
     failed_run
       [update_status request PROCESSING ''Starting analysis'' 0,
        update_progress (update_status request PROCESSING ''Starting analysis'' 0)
          ''Crawling website'' 10]
       [progress_event ''Crawling website'' 10]
       (update_progress (update_status request PROCESSING ''Starting analysis'' 0)
          ''Crawling website'' 10)
       \<lparr>exc_type = ''CrawlerException'',
        exc_message = ''Failed to crawl '' @ url request @ '': Timeout while loading the page''\<rparr>"
  by (simp add: run_analysis_def Let_def crawl_website_def unreachable_env_def)

lemma unreachable_run_failed:
  "status (last (ro_trace (run_analysis request unreachable_env))) = FAILED"
  "progress (last (ro_trace (run_analysis request unreachable_env))) = 10"
  by (simp_all add: unreachable_run failed_run_def handle_error_def update_progress_def
      update_status_def)

lemma healthy_run_completed:
  "status (last (ro_trace (run_analysis request healthy_env))) = COMPLETED"
  "progress (last (ro_trace (run_analysis request healthy_env))) = 100"
  by (simp_all add: run_analysis_def Let_def crawl_website_def healthy_env_def scenario1_def
      analyze_with_llm_def analyze_brand_recognition_def stop_after_attempt_3_def
      numeral_2_eq_2 brand_recognition_attempt_def save_results_def update_status_def)




section \<open>Properties of the batch pipeline\<close>

text \<open>Both orchestrators count the same members: a member's pipeline returned with a
  stored result exactly when its row is COMPLETED, and these are the members whose results
  the aggregator fetches.\<close>

lemma result_completed_iff:
  "result_completed (run_analysis request env)
     \<longleftrightarrow> status (last (ro_trace (run_analysis request env))) = COMPLETED"
  using run_analysis_end [of request env]
  by (auto simp add: result_completed_def split: sum.split)

lemma completed_results_length:
  "length (filter result_completed (run_members entries)) = completed_members entries"
  by (induction entries)
     (simp_all add: completed_members_def members_after_run_def run_members_def
        member_after_def result_completed_iff)

lemma fetch_completed_results_length:
  "length (fetch_completed_results (members_after_run entries)) = completed_members entries"
proof (induction entries)
  case Nil
  show ?case
    by (simp add: completed_members_def members_after_run_def run_members_def
        fetch_completed_results_def)
next
  case (Cons e entries)
  from run_analysis_end [of "be_request e" "be_env e"] Cons show ?case
    by (auto simp add: completed_members_def members_after_run_def run_members_def
        member_after_def fetch_completed_results_def)
qed

lemma completed_members_le: "completed_members entries \<le> length entries"
  by (simp add: completed_members_def members_after_run_def run_members_def
      order_trans [OF length_filter_le])

text \<open>The aggregator, for a batch with at least two completed members: it stores a
  comparison exactly when the model answers within three attempts, and otherwise raises the
  exception of the third attempt.\<close>

lemma generate_comparison_quorum:
  assumes "2 \<le> completed_members entries"
  shows "(\<exists>c. generate_comparison (members_after_run entries) api = Inr (Some c)
               \<and> isl (analyze_competitive_landscape (completed_members entries) api) = False)
       \<or> (\<exists>e. generate_comparison (members_after_run entries) api = Inl e
               \<and> analyze_competitive_landscape (completed_members entries) api = Inl e)"
  using assms
  by (auto simp add: generate_comparison_def Let_def fetch_completed_results_length
      split: sum.split)

lemma landscape_all_fail:
  assumes "0 < n" and "api 0 = Inl e0" and "api 1 = Inl e1" and "api 2 = Inl e2"
  shows "analyze_competitive_landscape n api
           = competitive_landscape_attempt n (Inl e2)"
  using assms
  by (simp add: analyze_competitive_landscape_def stop_after_attempt_3_def numeral_2_eq_2
      competitive_landscape_attempt_def)


lemma sync_final:
  assumes "url_entries \<noteq> []"
  shows "last (bo_trace (run_analysis_sync db url_entries api)) =
    (let n = completed_members url_entries;
         batch1 = (db_batch db)\<lparr>batch_progress := 100\<rparr>
     in if n = 0 then
          \<lparr>db_batch = batch1\<lparr>batch_status := FAILED, completed_count := 0,
                        failed_count := int (length url_entries),
                        batch_error_message := Some ''All URL analyses failed''\<rparr>,
           db_comparison = None\<rparr>
        else if n = 1 then
          \<lparr>db_batch = batch1\<lparr>batch_status := FAILED, completed_count := 1,
                        failed_count := int (length url_entries) - 1,
                        batch_error_message :=
                          Some ''Insufficient successful analyses (minimum 2 required)''\<rparr>,
           db_comparison = None\<rparr>
        else (case generate_comparison (members_after_run url_entries) api of
                Inl e \<Rightarrow>
                  \<lparr>db_batch =
                     (if take 500 (exc_message e) = []
                      then batch1\<lparr>batch_status := FAILED, completed_count := 0,
                                  failed_count := 0\<rparr>
                      else batch1\<lparr>batch_status := FAILED, completed_count := 0,
                                  failed_count := 0,
                                  batch_error_message := Some (take 500 (exc_message e))\<rparr>),
                   db_comparison = db_comparison db\<rparr>
              | Inr c \<Rightarrow>
                  \<lparr>db_batch = batch1\<lparr>batch_status := COMPLETED, completed_count := int n,
                                failed_count := int (length url_entries) - int n\<rparr>,
                   db_comparison = c\<rparr>))"
proof -
  define n where "n = completed_members url_entries"
  have eq: "length (filter result_completed (run_members url_entries)) = n"
    by (simp add: n_def completed_results_length)
  have len: "length (run_members url_entries) = length url_entries"
    by (simp add: run_members_def)
  consider "n = 0" | "n = 1" | "2 \<le> n" by linarith
  then have "last (bo_trace (run_analysis_sync db url_entries api)) =
    (let batch1 = (db_batch db)\<lparr>batch_progress := 100\<rparr>
     in if n = 0 then
          \<lparr>db_batch = batch1\<lparr>batch_status := FAILED, completed_count := 0,
                        failed_count := int (length url_entries),
                        batch_error_message := Some ''All URL analyses failed''\<rparr>,
           db_comparison = None\<rparr>
        else if n = 1 then
          \<lparr>db_batch = batch1\<lparr>batch_status := FAILED, completed_count := 1,
                        failed_count := int (length url_entries) - 1,
                        batch_error_message :=
                          Some ''Insufficient successful analyses (minimum 2 required)''\<rparr>,
           db_comparison = None\<rparr>
        else (case generate_comparison (members_after_run url_entries) api of
                Inl e \<Rightarrow>
                  \<lparr>db_batch =
                     (if take 500 (exc_message e) = []
                      then batch1\<lparr>batch_status := FAILED, completed_count := 0,
                                  failed_count := 0\<rparr>
                      else batch1\<lparr>batch_status := FAILED, completed_count := 0,
                                  failed_count := 0,
                                  batch_error_message := Some (take 500 (exc_message e))\<rparr>),
                   db_comparison = db_comparison db\<rparr>
              | Inr c \<Rightarrow>
                  \<lparr>db_batch = batch1\<lparr>batch_status := COMPLETED, completed_count := int n,
                                failed_count := int (length url_entries) - int n\<rparr>,
                   db_comparison = c\<rparr>))"
  proof cases
    case 1
    then show ?thesis using assms
      by (simp add: run_analysis_sync_def Let_def eq len update_batch_progress_def
          finalize_batch_def)
  next
    case 2
    then show ?thesis using assms
      by (simp add: run_analysis_sync_def Let_def eq len update_batch_progress_def
          finalize_batch_def)
  next
    case 3
    then show ?thesis using assms
      by (simp add: run_analysis_sync_def Let_def eq len update_batch_progress_def
          finalize_batch_def finalize_failed_def split: sum.split)
  qed
  then show ?thesis unfolding n_def by (simp only: Let_def)
qed

text \<open>Concrete members: a member on the healthy run is COMPLETED, a member whose crawl
  times out is not.\<close>

lemma completed_members_Cons:
  "completed_members (e # entries) =
     (if status (last (ro_trace (run_analysis (be_request e) (be_env e)))) = COMPLETED
      then Suc (completed_members entries) else completed_members entries)"
  by (simp add: completed_members_def members_after_run_def run_members_def member_after_def)

lemma completed_members_Nil: "completed_members [] = 0"
  by (simp add: completed_members_def members_after_run_def run_members_def)

lemma completed_members_examples:
  "completed_members [member ''r1'' ''https://a.example'' unreachable_env,
                      member ''r2'' ''https://b.example'' unreachable_env] = 0"
  "completed_members [member ''r1'' ''https://a.example'' healthy_env,
                      member ''r2'' ''https://b.example'' unreachable_env] = 1"
  "completed_members [member ''r1'' ''https://a.example'' healthy_env,
                      member ''r2'' ''https://b.example'' healthy_env] = 2"
  by (simp_all add: completed_members_Cons completed_members_Nil member_def
      healthy_run_completed unreachable_run_failed)




text \<open>When the model fails at all three attempts, the aggregator raises the exception of
  the third attempt and stores nothing.\<close>

lemma generate_comparison_all_fail:
  assumes "2 \<le> completed_members entries"
    and "api 0 = Inl e0" and "api 1 = Inl e1" and "api 2 = Inl e2"
  shows "generate_comparison (members_after_run entries) api =
           Inl \<lparr>exc_type = ''LLMAnalysisException'',
                exc_message =
                  (if exc_type e2 = ''JSONDecodeError''
                   then ''Invalid JSON response from GPT: '' @ exc_message e2
                   else ''OpenAI API error: '' @ exc_message e2)\<rparr>"
proof -
  from assms(1) have pos: "0 < completed_members entries" by simp
  have "analyze_competitive_landscape (completed_members entries) api =
          Inl \<lparr>exc_type = ''LLMAnalysisException'',
               exc_message =
                 (if exc_type e2 = ''JSONDecodeError''
                  then ''Invalid JSON response from GPT: '' @ exc_message e2
                  else ''OpenAI API error: '' @ exc_message e2)\<rparr>"
    using pos by (simp add: landscape_all_fail [OF pos assms(2-4)] competitive_landscape_attempt_def)
  with generate_comparison_quorum [OF assms(1), of api] show ?thesis by auto
qed

lemma failing_api_comparison:
  "generate_comparison
     (members_after_run [member ''r1'' ''https://a.example'' healthy_env,
                         member ''r2'' ''https://b.example'' healthy_env]) failing_api =
   Inl \<lparr>exc_type = ''LLMAnalysisException'',
        exc_message = ''OpenAI API error: Connection error.''\<rparr>"
proof -
  have "2 \<le> completed_members [member ''r1'' ''https://a.example'' healthy_env,
                                member ''r2'' ''https://b.example'' healthy_env]"
    by (simp add: completed_members_examples)
  from generate_comparison_all_fail [OF this, of failing_api] show ?thesis
    by (simp add: failing_api_def)
qed




text \<open>The counts of a batch whose row was created for its members, with both counts 0.
  In the asynchronous orchestrator every stored state has
  \<open>completed_count + failed_count \<le> total_urls\<close>, and the last state has equality,
  also when the aggregator raises: the counts are assigned to the row before the aggregator
  runs, and \<open>_handle_batch_error\<close> leaves them as they are.\<close>

lemma async_counts:
  assumes "url_entries \<noteq> []"
    and "batch_total_urls (db_batch db) = int (length url_entries)"
    and "completed_count (db_batch db) = 0" and "failed_count (db_batch db) = 0"
  shows "(let out = run_competitive_analysis db url_entries api;
              final = db_batch (last (bo_trace out))
          in (\<forall>s \<in> set (bo_trace out).
                completed_count (db_batch s) + failed_count (db_batch s)
                  \<le> batch_total_urls (db_batch s))
           \<and> (batch_status final = COMPLETED \<or> batch_status final = FAILED)
           \<and> completed_count final + failed_count final = batch_total_urls final)"
proof -
  have eq: "length (filter (\<lambda>u. status (bu_request u) = COMPLETED)
              (members_after_run url_entries)) = completed_members url_entries"
    by (simp add: completed_members_def)
  consider "completed_members url_entries = 0" | "completed_members url_entries = 1"
    | "2 \<le> completed_members url_entries" by linarith
  then show ?thesis
  proof cases
    case 1
    then show ?thesis using assms
      by (simp add: run_competitive_analysis_def Let_def eq)
  next
    case 2
    then show ?thesis using assms
      by (simp add: run_competitive_analysis_def Let_def eq)
  next
    case 3
    then show ?thesis using assms
      by (simp add: run_competitive_analysis_def Let_def eq handle_batch_error_def
          split: sum.split)
  qed
qed

text \<open>Claim C5 in the synchronous orchestrator. Every stored state has
  \<open>completed_count + failed_count \<le> total_urls\<close>, and the run ends COMPLETED or FAILED.
  When the run returns, the last state has \<open>completed_count + failed_count = total_urls\<close>.
  When the run raises, which it does exactly when at least two members are COMPLETED and
  the aggregator raises, the \<open>except\<close> branch calls \<open>_finalize_batch\<close> without the counts:
  the batch ends FAILED with both counts 0, so the sum is below \<open>total_urls\<close>.\<close>

theorem C5_sync_counts:
  assumes "url_entries \<noteq> []"
    and "batch_total_urls (db_batch db) = int (length url_entries)"
    and "completed_count (db_batch db) = 0" and "failed_count (db_batch db) = 0"
  shows "(let out = run_analysis_sync db url_entries api;
              final = db_batch (last (bo_trace out))
          in (\<forall>s \<in> set (bo_trace out).
                completed_count (db_batch s) + failed_count (db_batch s)
                  \<le> batch_total_urls (db_batch s))
           \<and> (batch_status final = COMPLETED \<or> batch_status final = FAILED)
           \<and> (isl (bo_return out) \<longleftrightarrow>
                2 \<le> completed_members url_entries
                \<and> isl (generate_comparison (members_after_run url_entries) api))
           \<and> (\<not> isl (bo_return out) \<longrightarrow>
                completed_count final + failed_count final = batch_total_urls final)
           \<and> (isl (bo_return out) \<longrightarrow>
                batch_status final = FAILED
                \<and> completed_count final = 0 \<and> failed_count final = 0
                \<and> completed_count final + failed_count final < batch_total_urls final))"
proof -
  have eq: "length (filter result_completed (run_members url_entries))
              = completed_members url_entries"
    by (rule completed_results_length)
  have len: "length (run_members url_entries) = length url_entries"
    by (simp add: run_members_def)
  from assms(1) have pos: "0 < length url_entries" by simp
  consider "completed_members url_entries = 0" | "completed_members url_entries = 1"
    | "2 \<le> completed_members url_entries" by linarith
  then show ?thesis
  proof cases
    case 1
    then show ?thesis using assms pos
      by (simp add: run_analysis_sync_def Let_def eq len update_batch_progress_def
          finalize_batch_def)
  next
    case 2
    then show ?thesis using assms pos
      by (simp add: run_analysis_sync_def Let_def eq len update_batch_progress_def
          finalize_batch_def)
  next
    case 3
    then show ?thesis using assms pos
      by (simp add: run_analysis_sync_def Let_def eq len update_batch_progress_def
          finalize_batch_def finalize_failed_def split: sum.split)
  qed
qed

theorem C5_sync_counts_witness:
  "[member ''r1'' ''https://a.example'' healthy_env,
    member ''r2'' ''https://b.example'' healthy_env] \<noteq> []
   \<and> batch_total_urls (db_batch (new_batch ''b1'' 2)) = 2
   \<and> completed_count (db_batch (new_batch ''b1'' 2)) = 0
   \<and> failed_count (db_batch (new_batch ''b1'' 2)) = 0
   \<and> isl (bo_return (run_analysis_sync (new_batch ''b1'' 2)
        [member ''r1'' ''https://a.example'' healthy_env,
         member ''r2'' ''https://b.example'' healthy_env] failing_api))
   \<and> batch_status (db_batch (last (bo_trace (run_analysis_sync (new_batch ''b1'' 2)
        [member ''r1'' ''https://a.example'' healthy_env,
         member ''r2'' ''https://b.example'' healthy_env] failing_api)))) = FAILED
   \<and> completed_count (db_batch (last (bo_trace (run_analysis_sync (new_batch ''b1'' 2)
        [member ''r1'' ''https://a.example'' healthy_env,
         member ''r2'' ''https://b.example'' healthy_env] failing_api)))) = 0
   \<and> failed_count (db_batch (last (bo_trace (run_analysis_sync (new_batch ''b1'' 2)
        [member ''r1'' ''https://a.example'' healthy_env,
         member ''r2'' ''https://b.example'' healthy_env] failing_api)))) = 0"
proof -
  have ne: "[member ''r1'' ''https://a.example'' healthy_env,
             member ''r2'' ''https://b.example'' healthy_env] \<noteq> []" by simp
  have total: "batch_total_urls (db_batch (new_batch ''b1'' 2))
      = int (length [member ''r1'' ''https://a.example'' healthy_env,
                     member ''r2'' ''https://b.example'' healthy_env])"
    by (simp add: new_batch_def)
  have zero: "completed_count (db_batch (new_batch ''b1'' 2)) = 0"
    "failed_count (db_batch (new_batch ''b1'' 2)) = 0"
    by (simp_all add: new_batch_def)
  from C5_sync_counts [where api = failing_api, OF ne total zero] total zero
  show ?thesis
    by (simp add: Let_def completed_members_examples failing_api_comparison)
qed

text \<open>The claim fails at this input: a batch of two URLs, both members COMPLETED, and a
  model behind the aggregator that never answers. The batch ends FAILED with
  \<open>completed_count + failed_count = 0\<close>, while \<open>total_urls\<close> is 2.\<close>

theorem C5_counterexample:
  "batch_status (db_batch (last (bo_trace (run_analysis_sync (new_batch ''b1'' 2)
        [member ''r1'' ''https://a.example'' healthy_env,
         member ''r2'' ''https://b.example'' healthy_env] failing_api)))) = FAILED
   \<and> completed_count (db_batch (last (bo_trace (run_analysis_sync (new_batch ''b1'' 2)
        [member ''r1'' ''https://a.example'' healthy_env,
         member ''r2'' ''https://b.example'' healthy_env] failing_api))))
     + failed_count (db_batch (last (bo_trace (run_analysis_sync (new_batch ''b1'' 2)
        [member ''r1'' ''https://a.example'' healthy_env,
         member ''r2'' ''https://b.example'' healthy_env] failing_api)))) = 0
   \<and> batch_total_urls (db_batch (last (bo_trace (run_analysis_sync (new_batch ''b1'' 2)
        [member ''r1'' ''https://a.example'' healthy_env,
         member ''r2'' ''https://b.example'' healthy_env] failing_api)))) = 2"
  by (simp add: sync_final Let_def completed_members_examples failing_api_comparison
      new_batch_def)

end
